theory Spec2Isabelle
  imports Complex_Main
begin

section \<open>The ledger data model\<close>

text \<open>
  The tables of the relational store, as the migrations declare them. Identifiers and
  codes are TEXT columns (\<open>string\<close>). A TIMESTAMP(3) column, like a JavaScript
  \<open>Date\<close>, is a number of milliseconds (\<open>int\<close>). A DECIMAL(18,2) column
  is an exact number of hundredths (\<open>int\<close>), and so is a \<open>Prisma.Decimal\<close>
  computed from such columns (see the section on decimal arithmetic).
  The \<open>createdAt\<close> columns are kept only where the code reads them (companies).
  The lines of an entry or invoice are nested in their parent, in the way every query
  of the controllers loads them (\<open>include: { journalLines: true }\<close>).
\<close>

datatype AccountType = ASSET | LIABILITY | EQUITY | INCOME | EXPENSE

datatype JournalType = GENERAL | SALES | PURCHASE | BANK | CASH

datatype EntryStatus = EntryStatus_DRAFT | EntryStatus_POSTED

datatype InvoiceStatus =
  InvoiceStatus_DRAFT | InvoiceStatus_POSTED | InvoiceStatus_PAID | InvoiceStatus_CANCELLED

record Company =
  company_id :: string
  company_name :: string
  company_baseCurrency :: string
  company_invoiceNextNumber :: int
  company_createdAt :: int

record Account =
  account_id :: string
  account_companyId :: string
  account_code :: string
  account_name :: string
  account_type :: AccountType
  account_isActive :: bool

record Journal =
  journal_id :: string
  journal_companyId :: string
  journal_code :: string
  journal_name :: string
  journal_type :: JournalType
  journal_nextNumber :: int

record Partner =
  partner_id :: string
  partner_companyId :: string
  partner_name :: string
  partner_email :: "string option"
  partner_phone :: "string option"
  partner_isCustomer :: bool
  partner_isVendor :: bool

record JournalLine =
  line_accountId :: string
  line_partnerId :: "string option"
  line_label :: "string option"
  line_debit :: int
  line_credit :: int

record JournalEntry =
  entry_id :: string
  entry_companyId :: string
  entry_journalId :: string
  entry_date :: int
  entry_number :: "string option"
  entry_status :: EntryStatus
  entry_memo :: "string option"
  entry_postedAt :: "int option"
  entry_journalLines :: "JournalLine list"

record InvoiceLine =
  iline_description :: string
  iline_quantity :: int
  iline_unitPrice :: int
  iline_lineTotal :: int
  iline_incomeAccountId :: string

record CustomerInvoice =
  invoice_id :: string
  invoice_companyId :: string
  invoice_partnerId :: string
  invoice_invoiceDate :: int
  invoice_dueDate :: "int option"
  invoice_number :: "string option"
  invoice_status :: InvoiceStatus
  invoice_memo :: "string option"
  invoice_currency :: string
  invoice_totalAmount :: int
  invoice_journalEntryId :: "string option"
  invoice_postedAt :: "int option"
  invoice_lines :: "InvoiceLine list"

text \<open>The store: every table is the list of its rows, in the store's scan order.\<close>

record store =
  companies :: "Company list"
  accounts :: "Account list"
  journals :: "Journal list"
  partners :: "Partner list"
  journalEntries :: "JournalEntry list"
  customerInvoices :: "CustomerInvoice list"

section \<open>Strings of the JavaScript runtime\<close>

definition digit_char :: "nat \<Rightarrow> char" where
  "digit_char d = (''0123456789'') ! (d mod 10)"

text \<open>\<open>String(n)\<close> and \<open>n.toString()\<close> on an integer-valued number.\<close>

function show_nat :: "nat \<Rightarrow> string" where
  "show_nat n = (if n < 10 then [digit_char n] else show_nat (n div 10) @ [digit_char (n mod 10)])"
  by pat_completeness auto
termination
  by (relation "measure (\<lambda>n. n)") auto

definition show_int :: "int \<Rightarrow> string" where
  "show_int i = (if i < 0 then CHR ''-'' # show_nat (nat (- i)) else show_nat (nat i))"

text \<open>\<open>s.padStart(n, c)\<close> with a one-character filler.\<close>

definition padStart :: "nat \<Rightarrow> char \<Rightarrow> string \<Rightarrow> string" where
  "padStart n c s = replicate (n - length s) c @ s"

text \<open>
  \<open>Decimal.toString()\<close> of a number of hundredths. Below 10^21 the notation is
  decimal: the integer part, then the fraction without trailing zeros. From 10^21 on
  (\<open>toExpPos\<close>) it is exponential: the first significant digit, the other significant
  digits after a point, and the exponent, as in \<open>1.008e+21\<close>.
\<close>

definition show_decimal :: "int \<Rightarrow> string" where
  "show_decimal c =
     (let a = nat \<bar>c\<bar>; f = a mod 100
      in (if c < 0 then ''-'' else '''') @
         (if a < 10 ^ 23
          then show_nat (a div 100) @
               (if f = 0 then ''''
                else if f mod 10 = 0 then [CHR ''.'', digit_char (f div 10)]
                else [CHR ''.'', digit_char (f div 10), digit_char (f mod 10)])
          else
            let ds = show_nat a;
                significant = rev (dropWhile (\<lambda>d. d = CHR ''0'') (rev ds))
            in (case significant of
                  [] \<Rightarrow> ''0''
                | d # rest \<Rightarrow> d # (if rest = [] then '''' else CHR ''.'' # rest))
               @ ''e+'' @ show_nat (length ds - 3)))"

section \<open>Decimal arithmetic\<close>

text \<open>
  \<open>Prisma.Decimal\<close> is the class of the decimal.js library in its default
  configuration: a precision of 20 significant digits and the rounding mode
  ROUND_HALF_UP (to the nearest, a half away from zero). Constructing a value from a
  column and comparing two values (\<open>equals\<close>, \<open>lte\<close>) are exact. \<open>plus\<close>, and
  \<open>add\<close>, which is the same method, round the sum to the precision. A value is a
  number of hundredths here; the first of its digits is its first significant digit,
  so when it has more than 20 digits the digits after the twentieth are rounded away.
\<close>

definition Decimal_precision :: nat where
  "Decimal_precision = 20"

definition Decimal_round :: "int \<Rightarrow> int" where
  "Decimal_round c =
     (let a = nat \<bar>c\<bar>;
          p = 10 ^ (length (show_nat a) - Decimal_precision)
      in sgn c * int ((a + p div 2) div p * p))"

definition Decimal_plus :: "int \<Rightarrow> int \<Rightarrow> int" where
  "Decimal_plus x y = Decimal_round (x + y)"

fun startsWith :: "string \<Rightarrow> string \<Rightarrow> bool" where
  "startsWith s [] = True"
| "startsWith [] (p # ps) = False"
| "startsWith (c # cs) (p # ps) = (c = p \<and> startsWith cs ps)"

text \<open>\<open>s.includes(p)\<close>: \<open>p\<close> occurs in \<open>s\<close> as a contiguous substring.\<close>

fun str_includes :: "string \<Rightarrow> string \<Rightarrow> bool" where
  "str_includes [] p = (p = [])"
| "str_includes (c # cs) p = (startsWith (c # cs) p \<or> str_includes cs p)"

text \<open>\<open>xs.join(sep)\<close>.\<close>

fun join :: "string \<Rightarrow> string list \<Rightarrow> string" where
  "join sep [] = []"
| "join sep [x] = x"
| "join sep (x # y # ys) = x @ sep @ join sep (y # ys)"

definition show_EntryStatus :: "EntryStatus \<Rightarrow> string" where
  "show_EntryStatus st = (case st of EntryStatus_DRAFT \<Rightarrow> ''DRAFT'' | EntryStatus_POSTED \<Rightarrow> ''POSTED'')"

definition show_InvoiceStatus :: "InvoiceStatus \<Rightarrow> string" where
  "show_InvoiceStatus st =
     (case st of InvoiceStatus_DRAFT \<Rightarrow> ''DRAFT'' | InvoiceStatus_POSTED \<Rightarrow> ''POSTED''
      | InvoiceStatus_PAID \<Rightarrow> ''PAID'' | InvoiceStatus_CANCELLED \<Rightarrow> ''CANCELLED'')"

section \<open>Responses, exceptions and transactions\<close>

text \<open>
  A failed request is \<open>res.status(code).json({ error: message })\<close>: the pair of the
  HTTP status and the message. 400 is a validation failure (bad request), 404 is
  NotFound, 409 is Conflict, 500 is an internal error.
\<close>

type_synonym http_error = "nat \<times> string"

text \<open>
  What a store operation or the code itself throws: the Prisma error code when there
  is one, the \<open>meta.target\<close> of a constraint violation, and the message.
\<close>

record exn =
  exn_code :: "string option"
  exn_target :: "string list"
  exn_message :: string

definition Error :: "string \<Rightarrow> exn" where
  "Error m = \<lparr>exn_code = None, exn_target = [], exn_message = m\<rparr>"

text \<open>P2025: the row an operation requires does not exist.\<close>

definition P2025 :: exn where
  "P2025 = \<lparr>exn_code = Some ''P2025'', exn_target = [], exn_message = ''No record was found''\<rparr>"

text \<open>
  P2002: a unique constraint fails. For a PostgreSQL store \<open>meta.target\<close> is the
  array of the columns of the violated index.
\<close>

definition P2002 :: "string list \<Rightarrow> exn" where
  "P2002 cols = \<lparr>exn_code = Some ''P2002'', exn_target = cols,
                  exn_message = ''Unique constraint failed on the fields: '' @ join '','' cols\<rparr>"

text \<open>P2020: a value does not fit its column; an INTEGER column holds 32 bits.\<close>

definition P2020 :: exn where
  "P2020 = \<lparr>exn_code = Some ''P2020'', exn_target = [], exn_message = ''Value out of range for the type''\<rparr>"

definition INTEGER_MAX :: int where
  "INTEGER_MAX = 2147483647"

text \<open>
  An operation inside \<open>prisma.$transaction\<close> either throws or returns a value and
  the store as written so far. The transaction commits the writes of a body that
  returns and discards the writes of a body that throws.
\<close>

type_synonym 'a tx = "store \<Rightarrow> exn + ('a \<times> store)"

definition transaction :: "'a tx \<Rightarrow> store \<Rightarrow> (exn + 'a) \<times> store" where
  "transaction body s =
     (case body s of
        Inl e \<Rightarrow> (Inl e, s)
      | Inr (r, s') \<Rightarrow> (Inr r, s'))"

definition tx_bind :: "'a tx \<Rightarrow> ('a \<Rightarrow> 'b tx) \<Rightarrow> 'b tx" where
  "tx_bind m f s = (case m s of Inl e \<Rightarrow> Inl e | Inr (r, s') \<Rightarrow> f r s')"

definition tx_return :: "'a \<Rightarrow> 'a tx" where
  "tx_return r s = Inr (r, s)"

definition tx_throw :: "exn \<Rightarrow> 'a tx" where
  "tx_throw e s = Inl e"

section \<open>Posting a journal entry\<close>

text \<open>
  \<^verbatim>\<open>function formatJournalEntryNumber(journalCode, year, sequence) {
    const paddedSequence = sequence.toString().padStart(4, '0');
    return `${journalCode}/${year}/${paddedSequence}`; }\<close>
\<close>

definition formatJournalEntryNumber :: "string \<Rightarrow> int \<Rightarrow> int \<Rightarrow> string" where
  "formatJournalEntryNumber journalCode year sequence =
     (let paddedSequence = padStart 4 (CHR ''0'') (show_int sequence)
      in journalCode @ ''/'' @ show_int year @ ''/'' @ paddedSequence)"

text \<open>\<open>prisma.journalEntry.findUnique({ where: { id } })\<close>\<close>

definition journalEntry_findUnique :: "string \<Rightarrow> store \<Rightarrow> JournalEntry option" where
  "journalEntry_findUnique i s = find (\<lambda>e. entry_id e = i) (journalEntries s)"

text \<open>\<open>tx.journal.findUniqueOrThrow({ where: { id } })\<close>\<close>

definition journal_findUniqueOrThrow :: "string \<Rightarrow> Journal tx" where
  "journal_findUniqueOrThrow i s =
     (case find (\<lambda>j. journal_id j = i) (journals s) of
        None \<Rightarrow> Inl P2025
      | Some j \<Rightarrow> Inr (j, s))"

text \<open>
  \<open>tx.journalEntry.update({ where: { id }, data: { number, status, postedAt } })\<close>.
  The unique index on (companyId, number) refuses a number that another entry of the
  company holds.
\<close>

definition journalEntry_update_posted :: "string \<Rightarrow> string \<Rightarrow> int \<Rightarrow> JournalEntry tx" where
  "journalEntry_update_posted i entryNumber now s =
     (case find (\<lambda>e. entry_id e = i) (journalEntries s) of
        None \<Rightarrow> Inl P2025
      | Some e \<Rightarrow>
          if list_ex (\<lambda>e'. entry_id e' \<noteq> i \<and> entry_companyId e' = entry_companyId e
                            \<and> entry_number e' = Some entryNumber) (journalEntries s)
          then Inl (P2002 [''companyId'', ''number''])
          else
            let e' = e\<lparr>entry_number := Some entryNumber, entry_status := EntryStatus_POSTED,
                       entry_postedAt := Some now\<rparr>
            in Inr (e', s\<lparr>journalEntries :=
                     map (\<lambda>x. if entry_id x = i
                               then x\<lparr>entry_number := Some entryNumber,
                                      entry_status := EntryStatus_POSTED,
                                      entry_postedAt := Some now\<rparr>
                               else x) (journalEntries s)\<rparr>))"

text \<open>\<open>tx.journal.update({ where: { id }, data: { nextNumber: { increment: 1 } } })\<close>\<close>

definition journal_update_increment :: "string \<Rightarrow> Journal tx" where
  "journal_update_increment i s =
     (case find (\<lambda>j. journal_id j = i) (journals s) of
        None \<Rightarrow> Inl P2025
      | Some j \<Rightarrow>
          if journal_nextNumber j + 1 > INTEGER_MAX then Inl P2020
          else Inr (j\<lparr>journal_nextNumber := journal_nextNumber j + 1\<rparr>,
                    s\<lparr>journals :=
                        map (\<lambda>x. if journal_id x = i
                                  then x\<lparr>journal_nextNumber := journal_nextNumber x + 1\<rparr>
                                  else x) (journals s)\<rparr>))"

text \<open>The body of the transaction of \<open>postJournalEntry\<close>.\<close>

definition postJournalEntry_tx :: "string \<Rightarrow> JournalEntry \<Rightarrow> int \<Rightarrow> int \<Rightarrow> JournalEntry tx" where
  "postJournalEntry_tx i entry year now =
     tx_bind (journal_findUniqueOrThrow (entry_journalId entry)) (\<lambda>journal.
       let entryNumber = formatJournalEntryNumber (journal_code journal) year (journal_nextNumber journal)
       in tx_bind (journalEntry_update_posted i entryNumber now) (\<lambda>postedEntry.
          tx_bind (journal_update_increment (journal_id journal)) (\<lambda>_.
          tx_return postedEntry)))"

text \<open>
  The loop that adds up the debit and credit columns of the lines:
  \<open>totalDebit = totalDebit.plus(line.debit); totalCredit = totalCredit.plus(line.credit)\<close>.
\<close>

fun totals :: "JournalLine list \<Rightarrow> int \<times> int \<Rightarrow> int \<times> int" where
  "totals [] (totalDebit, totalCredit) = (totalDebit, totalCredit)"
| "totals (line # rest) (totalDebit, totalCredit) =
     totals rest (Decimal_plus totalDebit (line_debit line), Decimal_plus totalCredit (line_credit line))"

text \<open>
  \<open>postJournalEntry\<close>, with what the request reads from its environment as
  arguments: \<open>getFullYear\<close> is the runtime's local calendar and \<open>now\<close> is
  \<open>new Date()\<close>. The result is the response and the store after the request.
  The \<open>catch\<close> block tests \<open>error.meta?.target?.includes('companyId_number')\<close>,
  which on an array is membership; either way the status is 500.
\<close>

definition postJournalEntry ::
  "(int \<Rightarrow> int) \<Rightarrow> int \<Rightarrow> string \<Rightarrow> store \<Rightarrow> (http_error + JournalEntry) \<times> store" where
  "postJournalEntry getFullYear now i s =
     (if i = [] then (Inl (400, ''id parameter is required''), s)
      else case journalEntry_findUnique i s of
        None \<Rightarrow> (Inl (404, ''Journal entry with id '' @ i @ '' not found''), s)
      | Some entry \<Rightarrow>
          if entry_status entry \<noteq> EntryStatus_DRAFT
          then (Inl (409, ''Journal entry is already posted (status: ''
                          @ show_EntryStatus (entry_status entry) @ '')''), s)
          else if length (entry_journalLines entry) < 2
          then (Inl (400, ''Journal entry must have at least 2 lines''), s)
          else
            let (totalDebit, totalCredit) = totals (entry_journalLines entry) (0, 0)
            in if totalDebit \<noteq> totalCredit
               then (Inl (400, ''Journal entry is unbalanced. Debit total: '' @ show_decimal totalDebit
                               @ '', Credit total: '' @ show_decimal totalCredit), s)
               else
                 let year = getFullYear (entry_date entry)
                 in (case transaction (postJournalEntry_tx i entry year now) s of
                       (Inr updatedEntry, s') \<Rightarrow> (Inr updatedEntry, s')
                     | (Inl error, s') \<Rightarrow>
                         if exn_code error = Some ''P2002''
                            \<and> ''companyId_number'' \<in> set (exn_target error)
                         then (Inl (500, ''Failed to post journal entry: duplicate entry number detected''), s')
                         else (Inl (500, ''Failed to post journal entry''), s')))"

section \<open>A post that overlaps another request\<close>

text \<open>
  The first statement of the transaction, \<open>tx.journal.findUniqueOrThrow\<close>, is a
  plain read of the journal row: the code asks for no lock on the row and passes no
  isolation level to \<open>prisma.$transaction\<close>. Between the reads of a request and
  its writes the store can therefore commit the transaction of another request.
  \<open>postJournalEntry_writes\<close> is the transaction after that read, for the row the
  read returned.
\<close>

definition postJournalEntry_writes :: "string \<Rightarrow> int \<Rightarrow> int \<Rightarrow> Journal \<Rightarrow> JournalEntry tx" where
  "postJournalEntry_writes i year now journal =
     (let entryNumber = formatJournalEntryNumber (journal_code journal) year (journal_nextNumber journal)
      in tx_bind (journalEntry_update_posted i entryNumber now) (\<lambda>postedEntry.
         tx_bind (journal_update_increment (journal_id journal)) (\<lambda>_.
         tx_return postedEntry)))"

text \<open>
  \<open>postJournalEntry\<close> for a request whose reads (the entry, then the journal row
  inside the transaction) see the store \<open>s0\<close> and whose writes meet the store
  \<open>s\<close>, which is \<open>s0\<close> after whatever other requests have committed in between.
  A unique index is checked against what is committed when the write is made, and the
  increment of the counter is relative to the row as it is then. The result is the
  response and the store after the request.
\<close>

definition postJournalEntry_concurrent ::
  "(int \<Rightarrow> int) \<Rightarrow> int \<Rightarrow> string \<Rightarrow> store \<Rightarrow> store \<Rightarrow> (http_error + JournalEntry) \<times> store" where
  "postJournalEntry_concurrent getFullYear now i s0 s =
     (if i = [] then (Inl (400, ''id parameter is required''), s)
      else case journalEntry_findUnique i s0 of
        None \<Rightarrow> (Inl (404, ''Journal entry with id '' @ i @ '' not found''), s)
      | Some entry \<Rightarrow>
          if entry_status entry \<noteq> EntryStatus_DRAFT
          then (Inl (409, ''Journal entry is already posted (status: ''
                          @ show_EntryStatus (entry_status entry) @ '')''), s)
          else if length (entry_journalLines entry) < 2
          then (Inl (400, ''Journal entry must have at least 2 lines''), s)
          else
            let (totalDebit, totalCredit) = totals (entry_journalLines entry) (0, 0)
            in if totalDebit \<noteq> totalCredit
               then (Inl (400, ''Journal entry is unbalanced. Debit total: '' @ show_decimal totalDebit
                               @ '', Credit total: '' @ show_decimal totalCredit), s)
               else
                 let year = getFullYear (entry_date entry)
                 in (case (case journal_findUniqueOrThrow (entry_journalId entry) s0 of
                             Inl error \<Rightarrow> (Inl error, s)
                           | Inr (journal, _) \<Rightarrow>
                               transaction (postJournalEntry_writes i year now journal) s) of
                       (Inr updatedEntry, s') \<Rightarrow> (Inr updatedEntry, s')
                     | (Inl error, s') \<Rightarrow>
                         if exn_code error = Some ''P2002''
                            \<and> ''companyId_number'' \<in> set (exn_target error)
                         then (Inl (500, ''Failed to post journal entry: duplicate entry number detected''), s')
                         else (Inl (500, ''Failed to post journal entry''), s')))"

section \<open>Posting a customer invoice\<close>

text \<open>
  \<^verbatim>\<open>function formatInvoiceNumber(year, sequence) {
    return `INV/${year}/${String(sequence).padStart(4, '0')}`; }\<close>
\<close>

definition formatInvoiceNumber :: "int \<Rightarrow> int \<Rightarrow> string" where
  "formatInvoiceNumber year sequence =
     ''INV/'' @ show_int year @ ''/'' @ padStart 4 (CHR ''0'') (show_int sequence)"

text \<open>\<open>prisma.account.findUnique({ where: { companyId_code: { companyId, code } } })\<close>\<close>

definition account_findUnique :: "string \<Rightarrow> string \<Rightarrow> store \<Rightarrow> Account option" where
  "account_findUnique companyId code s =
     find (\<lambda>a. account_companyId a = companyId \<and> account_code a = code) (accounts s)"

text \<open>
  The filter \<open>name: { contains: 'Receivable', mode: 'insensitive' }\<close>: the store
  compares without regard to the case of the letters (here: of the letters A to Z).
\<close>

definition toLower :: "char \<Rightarrow> char" where
  "toLower c =
     (case map_of (zip ''ABCDEFGHIJKLMNOPQRSTUVWXYZ'' ''abcdefghijklmnopqrstuvwxyz'') c of
        Some l \<Rightarrow> l
      | None \<Rightarrow> c)"

definition contains_insensitive :: "string \<Rightarrow> string \<Rightarrow> bool" where
  "contains_insensitive s p = str_includes (map toLower s) (map toLower p)"

definition commonCodes :: "string list" where
  "commonCodes = [''1200'', ''110000'', ''12000'', ''1100'']"

text \<open>The loop \<open>for (const code of commonCodes)\<close> of \<open>findAccountsReceivableAccount\<close>.\<close>

fun tryCodes :: "string list \<Rightarrow> string \<Rightarrow> store \<Rightarrow> Account option" where
  "tryCodes [] companyId s = None"
| "tryCodes (code # rest) companyId s =
     (case account_findUnique companyId code s of
        Some account \<Rightarrow>
          if account_type account = ASSET then Some account else tryCodes rest companyId s
      | None \<Rightarrow> tryCodes rest companyId s)"

definition findAccountsReceivableAccount :: "string \<Rightarrow> store \<Rightarrow> Account option" where
  "findAccountsReceivableAccount companyId s =
     (case tryCodes commonCodes companyId s of
        Some account \<Rightarrow> Some account
      | None \<Rightarrow>
          find (\<lambda>a. account_companyId a = companyId \<and> account_type a = ASSET
                     \<and> contains_insensitive (account_name a) ''Receivable'') (accounts s))"

text \<open>\<open>prisma.customerInvoice.findUnique({ where: { id } })\<close>\<close>

definition customerInvoice_findUnique :: "string \<Rightarrow> store \<Rightarrow> CustomerInvoice option" where
  "customerInvoice_findUnique i s = find (\<lambda>v. invoice_id v = i) (customerInvoices s)"

text \<open>\<open>prisma.journal.findUnique({ where: { companyId_code: { companyId, code } } })\<close>\<close>

definition journal_findUnique :: "string \<Rightarrow> string \<Rightarrow> store \<Rightarrow> Journal option" where
  "journal_findUnique companyId code s =
     find (\<lambda>j. journal_companyId j = companyId \<and> journal_code j = code) (journals s)"

text \<open>\<open>tx.company.findUniqueOrThrow({ where: { id } })\<close>\<close>

definition company_findUniqueOrThrow :: "string \<Rightarrow> Company tx" where
  "company_findUniqueOrThrow i s =
     (case find (\<lambda>c. company_id c = i) (companies s) of
        None \<Rightarrow> Inl P2025
      | Some c \<Rightarrow> Inr (c, s))"

text \<open>
  \<open>tx.journalEntry.create({ data })\<close>: the row with its lines is appended; the
  primary key refuses an identifier that is taken, and the unique index on
  (companyId, number) compares only numbers that are not null.
\<close>

definition journalEntry_create :: "JournalEntry \<Rightarrow> JournalEntry tx" where
  "journalEntry_create e s =
     (if list_ex (\<lambda>e'. entry_id e' = entry_id e) (journalEntries s) then Inl (P2002 [''id''])
      else if entry_number e \<noteq> None
              \<and> list_ex (\<lambda>e'. entry_companyId e' = entry_companyId e
                                \<and> entry_number e' = entry_number e) (journalEntries s)
      then Inl (P2002 [''companyId'', ''number''])
      else Inr (e, s\<lparr>journalEntries := journalEntries s @ [e]\<rparr>))"

text \<open>
  \<open>tx.customerInvoice.update({ where: { id }, data: { status, number, postedAt,
  journalEntryId } })\<close>, under the unique indexes on (companyId, number) and on
  journalEntryId.
\<close>

definition customerInvoice_update_posted ::
  "string \<Rightarrow> string \<Rightarrow> int \<Rightarrow> string \<Rightarrow> CustomerInvoice tx" where
  "customerInvoice_update_posted i invoiceNumber now journalEntryId s =
     (case find (\<lambda>v. invoice_id v = i) (customerInvoices s) of
        None \<Rightarrow> Inl P2025
      | Some v \<Rightarrow>
          if list_ex (\<lambda>v'. invoice_id v' \<noteq> i \<and> invoice_companyId v' = invoice_companyId v
                            \<and> invoice_number v' = Some invoiceNumber) (customerInvoices s)
          then Inl (P2002 [''companyId'', ''number''])
          else if list_ex (\<lambda>v'. invoice_id v' \<noteq> i
                                 \<and> invoice_journalEntryId v' = Some journalEntryId) (customerInvoices s)
          then Inl (P2002 [''journalEntryId''])
          else
            Inr (v\<lparr>invoice_status := InvoiceStatus_POSTED, invoice_number := Some invoiceNumber,
                   invoice_postedAt := Some now, invoice_journalEntryId := Some journalEntryId\<rparr>,
                 s\<lparr>customerInvoices :=
                     map (\<lambda>x. if invoice_id x = i
                               then x\<lparr>invoice_status := InvoiceStatus_POSTED,
                                      invoice_number := Some invoiceNumber,
                                      invoice_postedAt := Some now,
                                      invoice_journalEntryId := Some journalEntryId\<rparr>
                               else x) (customerInvoices s)\<rparr>))"

text \<open>
  \<open>tx.company.update({ where: { id }, data: { invoiceNextNumber: { increment: 1 } } })\<close>.
  The declaration of this column is not among the migrations at hand; it is taken to be
  an INTEGER like \<open>journals.nextNumber\<close>.
\<close>

definition company_update_increment :: "string \<Rightarrow> Company tx" where
  "company_update_increment i s =
     (case find (\<lambda>c. company_id c = i) (companies s) of
        None \<Rightarrow> Inl P2025
      | Some c \<Rightarrow>
          if company_invoiceNextNumber c + 1 > INTEGER_MAX then Inl P2020
          else Inr (c\<lparr>company_invoiceNextNumber := company_invoiceNextNumber c + 1\<rparr>,
                    s\<lparr>companies :=
                        map (\<lambda>x. if company_id x = i
                                  then x\<lparr>company_invoiceNextNumber := company_invoiceNextNumber x + 1\<rparr>
                                  else x) (companies s)\<rparr>))"

text \<open>The journal lines of the entry an invoice produces.\<close>

definition invoiceJournalLines :: "CustomerInvoice \<Rightarrow> Account \<Rightarrow> string \<Rightarrow> JournalLine list" where
  "invoiceJournalLines invoice arAccount invoiceNumber =
     \<lparr>line_accountId = account_id arAccount,
      line_partnerId = Some (invoice_partnerId invoice),
      line_label = Some (''Invoice '' @ invoiceNumber),
      line_debit = invoice_totalAmount invoice,
      line_credit = 0\<rparr>
     # map (\<lambda>line. \<lparr>line_accountId = iline_incomeAccountId line,
                    line_partnerId = Some (invoice_partnerId invoice),
                    line_label = Some (iline_description line),
                    line_debit = 0,
                    line_credit = iline_lineTotal line\<rparr>) (invoice_lines invoice)"

text \<open>
  The \<open>data\<close> of \<open>tx.journalEntry.create\<close> in \<open>postCustomerInvoice\<close>;
  \<open>invoice.memo || `Invoice ${invoiceNumber}`\<close> takes the default for a memo
  that is null or empty.
\<close>

definition invoiceJournalEntry ::
  "string \<Rightarrow> int \<Rightarrow> CustomerInvoice \<Rightarrow> Journal \<Rightarrow> Account \<Rightarrow> string \<Rightarrow> JournalEntry" where
  "invoiceJournalEntry newId entryNow invoice salesJournal arAccount invoiceNumber =
     \<lparr>entry_id = newId,
      entry_companyId = invoice_companyId invoice,
      entry_journalId = journal_id salesJournal,
      entry_date = invoice_invoiceDate invoice,
      entry_number = None,
      entry_status = EntryStatus_POSTED,
      entry_memo = (case invoice_memo invoice of
                      None \<Rightarrow> Some (''Invoice '' @ invoiceNumber)
                    | Some m \<Rightarrow> if m = [] then Some (''Invoice '' @ invoiceNumber) else Some m),
      entry_postedAt = Some entryNow,
      entry_journalLines = invoiceJournalLines invoice arAccount invoiceNumber\<rparr>"

text \<open>
  The body of the transaction of \<open>postCustomerInvoice\<close>. \<open>newId\<close> is the
  identifier the store generates for the new entry; \<open>entryNow\<close> and
  \<open>invoiceNow\<close> are the two readings of \<open>new Date()\<close>.
\<close>

definition postCustomerInvoice_tx ::
  "(int \<Rightarrow> int) \<Rightarrow> string \<Rightarrow> int \<Rightarrow> int \<Rightarrow> string \<Rightarrow> CustomerInvoice \<Rightarrow> Journal \<Rightarrow> Account
   \<Rightarrow> (CustomerInvoice \<times> string \<times> string option) tx" where
  "postCustomerInvoice_tx getFullYear newId entryNow invoiceNow i invoice salesJournal arAccount =
     tx_bind (company_findUniqueOrThrow (invoice_companyId invoice)) (\<lambda>company.
       let year = getFullYear (invoice_invoiceDate invoice);
           invoiceNumber = formatInvoiceNumber year (company_invoiceNextNumber company);
           totalDebit = invoice_totalAmount invoice;
           totalCredit = fold (\<lambda>line sum. Decimal_plus sum (iline_lineTotal line))
                              (invoice_lines invoice) 0
       in if totalDebit \<noteq> totalCredit
          then tx_throw (Error (''Journal entry is unbalanced. Debit: '' @ show_decimal totalDebit
                                @ '', Credit: '' @ show_decimal totalCredit))
          else
            tx_bind (journalEntry_create
                       (invoiceJournalEntry newId entryNow invoice salesJournal arAccount invoiceNumber))
              (\<lambda>journalEntry.
            tx_bind (customerInvoice_update_posted i invoiceNumber invoiceNow (entry_id journalEntry))
              (\<lambda>updatedInvoice.
            tx_bind (company_update_increment (invoice_companyId invoice)) (\<lambda>_.
            tx_return (updatedInvoice, entry_id journalEntry, entry_number journalEntry)))))"

text \<open>
  \<open>postCustomerInvoice\<close>. The response of a successful request is the updated
  invoice and the summary \<open>{ id, number }\<close> of the journal entry.
\<close>

definition postCustomerInvoice ::
  "(int \<Rightarrow> int) \<Rightarrow> string \<Rightarrow> int \<Rightarrow> int \<Rightarrow> string \<Rightarrow> store
   \<Rightarrow> (http_error + CustomerInvoice \<times> string \<times> string option) \<times> store" where
  "postCustomerInvoice getFullYear newId entryNow invoiceNow i s =
     (case customerInvoice_findUnique i s of
        None \<Rightarrow> (Inl (404, ''Customer invoice with id '' @ i @ '' not found''), s)
      | Some invoice \<Rightarrow>
          if invoice_status invoice \<noteq> InvoiceStatus_DRAFT
          then (Inl (400, ''Invoice cannot be posted. Current status: ''
                          @ show_InvoiceStatus (invoice_status invoice)
                          @ ''. Only DRAFT invoices can be posted.''), s)
          else if invoice_lines invoice = []
          then (Inl (400, ''Invoice must have at least one line item to be posted''), s)
          else if invoice_totalAmount invoice \<le> 0
          then (Inl (400, ''Invoice total amount must be greater than 0''), s)
          else
            (case journal_findUnique (invoice_companyId invoice) ''SAL'' s of
               None \<Rightarrow> (Inl (404, ''Sales Journal (code: SAL) not found. Please ensure the Sales Journal is set up for this company.''), s)
             | Some salesJournal \<Rightarrow>
                 (case findAccountsReceivableAccount (invoice_companyId invoice) s of
                    None \<Rightarrow> (Inl (404, ''Accounts Receivable account not found. Please ensure an Accounts Receivable (ASSET) account is set up for this company.''), s)
                  | Some arAccount \<Rightarrow>
                      (case transaction (postCustomerInvoice_tx getFullYear newId entryNow invoiceNow
                                           i invoice salesJournal arAccount) s of
                         (Inr result, s') \<Rightarrow> (Inr result, s')
                       | (Inl error, s') \<Rightarrow>
                           if str_includes (exn_message error) ''unbalanced''
                           then (Inl (400, exn_message error), s')
                           else (Inl (500, ''Failed to post customer invoice''), s')))))"

section \<open>Creating a journal entry\<close>

text \<open>
  The request body, typed by the interfaces \<open>JournalLineInput\<close> and
  \<open>CreateJournalEntryBody\<close>; \<open>None\<close> is a field that is \<open>undefined\<close>, and
  \<open>body_lines = None\<close> is a \<open>lines\<close> that is not an array. A number of the body
  is the JavaScript number \<open>express.json()\<close> has read from the JSON text, a double:
  the text 9007199254740993 is read as 9007199254740992, and a text closer to zero than
  every double as 0. It is given by the decimal the store receives for it, which has
  the sign of the number and is 0 when the number is; the validation tests nothing
  else of an amount. (A text beyond the largest double is read as \<open>Infinity\<close>, which
  passes the validation as a positive number and which the store refuses; it is given
  by a decimal beyond the column.)
\<close>

record JournalLineInput =
  input_accountCode :: "string option"
  input_label :: "string option"
  input_debit :: "rat option"
  input_credit :: "rat option"

record CreateJournalEntryBody =
  body_companyId :: "string option"
  body_journalCode :: "string option"
  body_date :: "string option"
  body_memo :: "string option"
  body_lines :: "JournalLineInput list option"

text \<open>\<open>!x\<close> for a string that may be undefined.\<close>

definition falsy :: "string option \<Rightarrow> bool" where
  "falsy x = (case x of None \<Rightarrow> True | Some v \<Rightarrow> v = [])"

text \<open>The string of a field, once the validation has found it to be one.\<close>

definition string_of :: "string option \<Rightarrow> string" where
  "string_of x = (case x of None \<Rightarrow> [] | Some v \<Rightarrow> v)"

definition array_of :: "'a list option \<Rightarrow> 'a list" where
  "array_of x = (case x of None \<Rightarrow> [] | Some v \<Rightarrow> v)"

text \<open>\<open>x > 0\<close> for a number that may be undefined: false on undefined.\<close>

definition gt0 :: "rat option \<Rightarrow> bool" where
  "gt0 x = (case x of None \<Rightarrow> False | Some v \<Rightarrow> v > 0)"

text \<open>The regular expression \<open>/^\d{4}-\d{2}-\d{2}$/\<close>.\<close>

definition isDigit :: "char \<Rightarrow> bool" where
  "isDigit c = (c \<in> set ''0123456789'')"

definition dateRegex_test :: "string \<Rightarrow> bool" where
  "dateRegex_test d =
     (length d = 10 \<and> list_all (\<lambda>k. isDigit (d ! k)) [0, 1, 2, 3, 5, 6, 8, 9]
      \<and> d ! 4 = CHR ''-'' \<and> d ! 7 = CHR ''-'')"

text \<open>The body of \<open>body.lines.forEach((line, index) => ...)\<close> for one line.\<close>

definition validateLine :: "nat \<Rightarrow> JournalLineInput \<Rightarrow> string list" where
  "validateLine index line =
     (if falsy (input_accountCode line)
      then [''lines['' @ show_nat index @ ''].accountCode is required''] else [])
     @ (case input_debit line of
          None \<Rightarrow> [''lines['' @ show_nat index @ ''].debit is required and must be a number'']
        | Some d \<Rightarrow> if d < 0 then [''lines['' @ show_nat index @ ''].debit must be >= 0''] else [])
     @ (case input_credit line of
          None \<Rightarrow> [''lines['' @ show_nat index @ ''].credit is required and must be a number'']
        | Some c \<Rightarrow> if c < 0 then [''lines['' @ show_nat index @ ''].credit must be >= 0''] else [])
     @ (if gt0 (input_debit line) \<and> gt0 (input_credit line)
        then [''lines['' @ show_nat index @ ''] cannot have both debit and credit > 0''] else [])"

fun validateLines :: "nat \<Rightarrow> JournalLineInput list \<Rightarrow> string list" where
  "validateLines index [] = []"
| "validateLines index (line # rest) = validateLine index line @ validateLines (Suc index) rest"

text \<open>
  The errors the validation collects. \<open>newDate\<close> is the runtime's
  \<open>new Date(string)\<close>, \<open>None\<close> for an invalid date.
\<close>

definition validateBody :: "(string \<Rightarrow> int option) \<Rightarrow> CreateJournalEntryBody \<Rightarrow> string list" where
  "validateBody newDate body =
     (if falsy (body_journalCode body) then [''journalCode is required''] else [])
     @ (case body_date body of
          None \<Rightarrow> [''date is required'']
        | Some d \<Rightarrow>
            if d = [] then [''date is required'']
            else if \<not> dateRegex_test d then [''date must be in YYYY-MM-DD format'']
            else if newDate d = None then [''date is invalid'']
            else [])
     @ (case body_lines body of
          None \<Rightarrow> [''lines is required and must be an array'']
        | Some ls \<Rightarrow>
            (if length ls < 2 then [''lines must contain at least 2 entries''] else [])
            @ validateLines 0 ls)"

text \<open>\<open>prisma.company.findFirst({ orderBy: { createdAt: 'asc' } })\<close>\<close>

definition company_findFirst_createdAt :: "store \<Rightarrow> Company option" where
  "company_findFirst_createdAt s =
     (case companies s of
        [] \<Rightarrow> None
      | c # cs \<Rightarrow>
          Some (fold (\<lambda>x best. if company_createdAt x < company_createdAt best then x else best) cs c))"

text \<open>
  A DECIMAL(18,2) column stores a number rounded to two places, halves away from
  zero, and refuses one that needs more than 18 digits.
\<close>

definition toDecimal2 :: "rat \<Rightarrow> int" where
  "toDecimal2 r = (if r \<ge> 0 then \<lfloor>r * 100 + 1 / 2\<rfloor> else - \<lfloor>(- r) * 100 + 1 / 2\<rfloor>)"

definition fitsDecimal18 :: "int \<Rightarrow> bool" where
  "fitsDecimal18 c = (\<bar>c\<bar> < 10 ^ 18)"

text \<open>
  The lines of the new entry: \<open>accountMap\<close> is \<open>new Map(accounts.map((a) =>
  [a.code, a]))\<close>, in which a later row of a code replaces an earlier one;
  \<open>None\<close> is the \<open>TypeError\<close> of \<open>accountMap.get(line.accountCode)!.id\<close> on a
  code that is not in the map, or the store's refusal of a line without amounts.
\<close>

fun newJournalLines :: "Account list \<Rightarrow> JournalLineInput list \<Rightarrow> JournalLine list option" where
  "newJournalLines found [] = Some []"
| "newJournalLines found (line # rest) =
     (case find (\<lambda>a. Some (account_code a) = input_accountCode line) (rev found) of
        None \<Rightarrow> None
      | Some a \<Rightarrow>
          (case (input_debit line, input_credit line, newJournalLines found rest) of
             (Some debit, Some credit, Some ls) \<Rightarrow>
               Some (\<lparr>line_accountId = account_id a,
                      line_partnerId = None,
                      line_label = (if falsy (input_label line) then None else input_label line),
                      line_debit = toDecimal2 debit,
                      line_credit = toDecimal2 credit\<rparr> # ls)
           | _ \<Rightarrow> None))"

text \<open>
  \<open>prisma.journalEntry.create\<close> with the nested lines is one atomic write; the
  \<open>catch\<close> of the handler answers a failure of the store with status 500.
\<close>

definition persistJournalEntry :: "JournalEntry \<Rightarrow> store \<Rightarrow> (http_error + JournalEntry) \<times> store" where
  "persistJournalEntry data s =
     (case transaction (journalEntry_create data) s of
        (Inr journalEntry, s') \<Rightarrow> (Inr journalEntry, s')
      | (Inl error, s') \<Rightarrow> (Inl (500, ''Failed to create journal entry''), s'))"

text \<open>
  \<open>createJournalEntry\<close>. \<open>setHours0\<close> is \<open>setHours(0, 0, 0, 0)\<close> in the
  runtime's time zone and \<open>newId\<close> is the identifier the store generates.
\<close>

definition createJournalEntry ::
  "(string \<Rightarrow> int option) \<Rightarrow> (int \<Rightarrow> int) \<Rightarrow> string \<Rightarrow> CreateJournalEntryBody \<Rightarrow> store
   \<Rightarrow> (http_error + JournalEntry) \<times> store" where
  "createJournalEntry newDate setHours0 newId body s =
     (let errors = validateBody newDate body
      in if errors \<noteq> [] then (Inl (400, join ''; '' errors), s)
      else
        (case (if falsy (body_companyId body)
               then (case company_findFirst_createdAt s of
                       None \<Rightarrow> Inl (404, ''No company found. Please seed the database first.'')
                     | Some firstCompany \<Rightarrow> Inr (company_id firstCompany))
               else Inr (string_of (body_companyId body))) of
           Inl e \<Rightarrow> (Inl e, s)
         | Inr finalCompanyId \<Rightarrow>
             (case find (\<lambda>c. company_id c = finalCompanyId) (companies s) of
                None \<Rightarrow> (Inl (404, ''Company with id '' @ finalCompanyId @ '' not found''), s)
              | Some company \<Rightarrow>
                  (case journal_findUnique finalCompanyId (string_of (body_journalCode body)) s of
                     None \<Rightarrow> (Inl (404, ''Journal with code \"'' @ string_of (body_journalCode body)
                                        @ ''\" not found for company''), s)
                   | Some journal \<Rightarrow>
                       let ls = array_of (body_lines body);
                           accountCodes = map (\<lambda>line. string_of (input_accountCode line)) ls;
                           found = filter (\<lambda>a. account_companyId a = finalCompanyId
                                                \<and> account_code a \<in> set accountCodes) (accounts s);
                           foundAccountCodes = set (map account_code found);
                           missingCodes = filter (\<lambda>code. code \<notin> foundAccountCodes) accountCodes
                       in if missingCodes \<noteq> []
                          then (Inl (404, ''Account(s) not found: '' @ join '', '' missingCodes), s)
                          else
                            (case (newDate (string_of (body_date body)), newJournalLines found ls) of
                               (Some parsedDate, Some journalLines) \<Rightarrow>
                                 if \<not> list_all (\<lambda>l. fitsDecimal18 (line_debit l)
                                                     \<and> fitsDecimal18 (line_credit l)) journalLines
                                 then (Inl (500, ''Failed to create journal entry''), s)
                                 else
                                   persistJournalEntry
                                           \<lparr>entry_id = newId,
                                            entry_companyId = finalCompanyId,
                                            entry_journalId = journal_id journal,
                                            entry_date = setHours0 parsedDate,
                                            entry_number = None,
                                            entry_status = EntryStatus_DRAFT,
                                            entry_memo = (if falsy (body_memo body) then None
                                                          else body_memo body),
                                            entry_postedAt = None,
                                            entry_journalLines = journalLines\<rparr> s
                             | _ \<Rightarrow> (Inl (500, ''Failed to create journal entry''), s))))))"

section \<open>What the specification says, as predicates\<close>

text \<open>The sums of the debit and the credit column of an entry, as exact sums of hundredths.\<close>

definition totalDebit :: "JournalEntry \<Rightarrow> int" where
  "totalDebit e = sum_list (map line_debit (entry_journalLines e))"

definition totalCredit :: "JournalEntry \<Rightarrow> int" where
  "totalCredit e = sum_list (map line_credit (entry_journalLines e))"

text \<open>
  A line the validation of \<open>createJournalEntry\<close> lets through: an account code
  that is not empty, a debit and a credit that are numbers, neither negative, not both
  positive.
\<close>

definition line_accepted :: "JournalLineInput \<Rightarrow> bool" where
  "line_accepted l =
     (case (input_accountCode l, input_debit l, input_credit l) of
        (Some code, Some d, Some c) \<Rightarrow> code \<noteq> [] \<and> 0 \<le> d \<and> 0 \<le> c \<and> \<not> (0 < d \<and> 0 < c)
      | _ \<Rightarrow> False)"

text \<open>
  The resolution of the Accounts-Receivable account in the words of the
  specification: the first of the conventional codes whose account exists with type
  ASSET; when no code resolves, the first ASSET account of the company whose name
  contains "Receivable" in any case.
\<close>

definition coded_candidate :: "string \<Rightarrow> store \<Rightarrow> string \<Rightarrow> Account option" where
  "coded_candidate companyId s code =
     (case account_findUnique companyId code s of
        None \<Rightarrow> None
      | Some a \<Rightarrow> if account_type a = ASSET then Some a else None)"

definition findAccountsReceivableAccount_spec :: "string \<Rightarrow> store \<Rightarrow> Account option" where
  "findAccountsReceivableAccount_spec companyId s =
     (case List.map_filter (coded_candidate companyId s) [''1200'', ''110000'', ''12000'', ''1100''] of
        a # _ \<Rightarrow> Some a
      | [] \<Rightarrow>
          find (\<lambda>a. account_companyId a = companyId \<and> account_type a = ASSET
                     \<and> contains_insensitive (account_name a) ''Receivable'') (accounts s))"

text \<open>The HTTP status of a response that is an error.\<close>

definition error_status :: "http_error + 'a \<Rightarrow> nat option" where
  "error_status r = (case r of Inl (code, message) \<Rightarrow> Some code | Inr _ \<Rightarrow> None)"

section \<open>The seeded ledger\<close>

text \<open>The store after the seed script, and the documents of the examples.\<close>

definition seed :: store where
  "seed =
     \<lparr>companies =
        [\<lparr>company_id = ''default-company-id'', company_name = ''Default Company'',
          company_baseCurrency = ''USD'', company_invoiceNextNumber = 1, company_createdAt = 0\<rparr>],
      accounts =
        [\<lparr>account_id = ''a1000'', account_companyId = ''default-company-id'', account_code = ''1000'',
          account_name = ''Cash'', account_type = ASSET, account_isActive = True\<rparr>,
         \<lparr>account_id = ''a1100'', account_companyId = ''default-company-id'', account_code = ''1100'',
          account_name = ''Bank'', account_type = ASSET, account_isActive = True\<rparr>,
         \<lparr>account_id = ''a1200'', account_companyId = ''default-company-id'', account_code = ''1200'',
          account_name = ''Accounts Receivable'', account_type = ASSET, account_isActive = True\<rparr>,
         \<lparr>account_id = ''a2000'', account_companyId = ''default-company-id'', account_code = ''2000'',
          account_name = ''Accounts Payable'', account_type = LIABILITY, account_isActive = True\<rparr>,
         \<lparr>account_id = ''a4000'', account_companyId = ''default-company-id'', account_code = ''4000'',
          account_name = ''Sales Revenue'', account_type = INCOME, account_isActive = True\<rparr>,
         \<lparr>account_id = ''a5000'', account_companyId = ''default-company-id'', account_code = ''5000'',
          account_name = ''Office Expense'', account_type = EXPENSE, account_isActive = True\<rparr>],
      journals =
        [\<lparr>journal_id = ''jGEN'', journal_companyId = ''default-company-id'', journal_code = ''GEN'',
          journal_name = ''General Journal'', journal_type = GENERAL, journal_nextNumber = 1\<rparr>,
         \<lparr>journal_id = ''jSAL'', journal_companyId = ''default-company-id'', journal_code = ''SAL'',
          journal_name = ''Sales Journal'', journal_type = SALES, journal_nextNumber = 1\<rparr>,
         \<lparr>journal_id = ''jPUR'', journal_companyId = ''default-company-id'', journal_code = ''PUR'',
          journal_name = ''Purchase Journal'', journal_type = PURCHASE, journal_nextNumber = 1\<rparr>,
         \<lparr>journal_id = ''jBNK'', journal_companyId = ''default-company-id'', journal_code = ''BNK'',
          journal_name = ''Bank Journal'', journal_type = BANK, journal_nextNumber = 1\<rparr>],
      partners =
        [\<lparr>partner_id = ''p1'', partner_companyId = ''default-company-id'',
          partner_name = ''Walk-in Customer'', partner_email = None, partner_phone = None,
          partner_isCustomer = True, partner_isVendor = False\<rparr>,
         \<lparr>partner_id = ''p2'', partner_companyId = ''default-company-id'',
          partner_name = ''Default Vendor'', partner_email = None, partner_phone = None,
          partner_isCustomer = False, partner_isVendor = True\<rparr>],
      journalEntries = [],
      customerInvoices = []\<rparr>"

text \<open>A balanced draft entry: 100.00 from account 4000 to account 1000.\<close>

definition draftEntry :: JournalEntry where
  "draftEntry =
     \<lparr>entry_id = ''e1'', entry_companyId = ''default-company-id'', entry_journalId = ''jGEN'',
      entry_date = 0, entry_number = None, entry_status = EntryStatus_DRAFT,
      entry_memo = None, entry_postedAt = None,
      entry_journalLines =
        [\<lparr>line_accountId = ''a1000'', line_partnerId = None, line_label = None,
          line_debit = 10000, line_credit = 0\<rparr>,
         \<lparr>line_accountId = ''a4000'', line_partnerId = None, line_label = None,
          line_debit = 0, line_credit = 10000\<rparr>]\<rparr>"

text \<open>A draft invoice of one line: 2 units at 50.00 on account 4000.\<close>

definition draftInvoice :: CustomerInvoice where
  "draftInvoice =
     \<lparr>invoice_id = ''i1'', invoice_companyId = ''default-company-id'', invoice_partnerId = ''p1'',
      invoice_invoiceDate = 0, invoice_dueDate = None, invoice_number = None,
      invoice_status = InvoiceStatus_DRAFT, invoice_memo = None, invoice_currency = ''USD'',
      invoice_totalAmount = 10000, invoice_journalEntryId = None, invoice_postedAt = None,
      invoice_lines =
        [\<lparr>iline_description = ''Widget'', iline_quantity = 200, iline_unitPrice = 5000,
          iline_lineTotal = 10000, iline_incomeAccountId = ''a4000''\<rparr>]\<rparr>"

definition ledger1 :: store where
  "ledger1 = seed\<lparr>journalEntries := [draftEntry], customerInvoices := [draftInvoice]\<rparr>"

text \<open>A calendar for the examples: every timestamp of the examples lies in 2026.\<close>

definition year2026 :: "int \<Rightarrow> int" where
  "year2026 t = 2026"

text \<open>The same entry and invoice once posted, and a ledger that holds them.\<close>

definition postedEntry :: JournalEntry where
  "postedEntry = draftEntry\<lparr>entry_number := Some ''GEN/2026/0001'',
                            entry_status := EntryStatus_POSTED, entry_postedAt := Some 5\<rparr>"

definition postedInvoice :: CustomerInvoice where
  "postedInvoice = draftInvoice\<lparr>invoice_status := InvoiceStatus_POSTED,
                                invoice_number := Some ''INV/2026/0001'',
                                invoice_postedAt := Some 6,
                                invoice_journalEntryId := Some ''e2''\<rparr>"

definition ledger3 :: store where
  "ledger3 = seed\<lparr>journalEntries := [postedEntry], customerInvoices := [postedInvoice]\<rparr>"

text \<open>An invoice whose total is not the sum of its lines, in a ledger of its own.\<close>

definition unbalancedInvoice :: CustomerInvoice where
  "unbalancedInvoice = draftInvoice\<lparr>invoice_id := ''i2'', invoice_totalAmount := 10001\<rparr>"

definition ledger2 :: store where
  "ledger2 = seed\<lparr>journalEntries := [draftEntry], customerInvoices := [draftInvoice, unbalancedInvoice]\<rparr>"

text \<open>
  The ledger of the draft invoice with a second invoice that already holds the number
  the company's counter would allocate next.
\<close>

definition ledgerDup :: store where
  "ledgerDup = ledger1\<lparr>customerInvoices := [draftInvoice, postedInvoice\<lparr>invoice_id := ''i0''\<rparr>]\<rparr>"

text \<open>
  The seeded ledger with the draft invoice and without the accounts 1200 (Accounts
  Receivable) and 1100 (Bank), the two ASSET accounts of the seed under a conventional code.
\<close>

definition ledgerNoAR :: store where
  "ledgerNoAR = ledger1\<lparr>accounts := filter (\<lambda>a. account_code a \<notin> {''1200'', ''1100''}) (accounts seed)\<rparr>"

text \<open>The same ledger with a receivable account under a code of its own.\<close>

definition namedAR :: Account where
  "namedAR = \<lparr>account_id = ''a1200'', account_companyId = ''default-company-id'',
              account_code = ''1999'', account_name = ''Trade RECEIVABLES'',
              account_type = ASSET, account_isActive = True\<rparr>"

definition ledgerNamedAR :: store where
  "ledgerNamedAR = ledger1\<lparr>accounts := filter (\<lambda>a. account_code a \<notin> {''1200'', ''1100''}) (accounts seed) @ [namedAR]\<rparr>"

text \<open>A runtime for the examples: every date string is the instant 0, at midnight.\<close>

definition parseDate0 :: "string \<Rightarrow> int option" where
  "parseDate0 d = Some 0"

definition sameInstant :: "int \<Rightarrow> int" where
  "sameInstant t = t"

text \<open>Request bodies: a balanced entry, one whose lines are all zero, one with a line
  that has both a debit and a credit.\<close>

definition balancedBody :: CreateJournalEntryBody where
  "balancedBody =
     \<lparr>body_companyId = None, body_journalCode = Some ''GEN'', body_date = Some ''2026-01-15'',
      body_memo = None,
      body_lines = Some
        [\<lparr>input_accountCode = Some ''1000'', input_label = None,
          input_debit = Some 100, input_credit = Some 0\<rparr>,
         \<lparr>input_accountCode = Some ''4000'', input_label = None,
          input_debit = Some 0, input_credit = Some 100\<rparr>]\<rparr>"

definition zeroBody :: CreateJournalEntryBody where
  "zeroBody =
     \<lparr>body_companyId = None, body_journalCode = Some ''GEN'', body_date = Some ''2026-01-15'',
      body_memo = None,
      body_lines = Some
        [\<lparr>input_accountCode = Some ''1000'', input_label = None,
          input_debit = Some 0, input_credit = Some 0\<rparr>,
         \<lparr>input_accountCode = Some ''4000'', input_label = None,
          input_debit = Some 0, input_credit = Some 0\<rparr>]\<rparr>"

definition bothLine :: JournalLineInput where
  "bothLine = \<lparr>input_accountCode = Some ''1000'', input_label = None,
               input_debit = Some 5, input_credit = Some 7\<rparr>"

definition bothBody :: CreateJournalEntryBody where
  "bothBody = balancedBody\<lparr>body_lines := Some [bothLine, bothLine]\<rparr>"

text \<open>The seeded ledger after the balanced entry is created, and after it is posted.\<close>

definition ledgerCreated :: store where
  "ledgerCreated = snd (createJournalEntry parseDate0 sameInstant ''e1'' balancedBody seed)"

definition ledgerPosted :: store where
  "ledgerPosted = snd (postJournalEntry year2026 5 ''e1'' ledgerCreated)"

text \<open>The outcome of posting the draft invoice of \<open>ledger1\<close>.\<close>

definition invoicePosted ::
  "(http_error + CustomerInvoice \<times> string \<times> string option) \<times> store" where
  "invoicePosted = postCustomerInvoice year2026 ''e2'' 5 6 ''i1'' ledger1"

text \<open>
  A request of 225 lines: 112 debits of 9000000000000000 on account 1000, one debit of
  0.02 on the same account, and 112 credits of 9000000000000000 on account 4000. Each
  amount is read as a double whose decimal form is the one written here
  (9000000000000000 is below 2^53), and fits a DECIMAL(18,2) column.
\<close>

definition bigDebit :: JournalLineInput where
  "bigDebit = \<lparr>input_accountCode = Some ''1000'', input_label = None,
               input_debit = Some 9000000000000000, input_credit = Some 0\<rparr>"

definition centsDebit :: JournalLineInput where
  "centsDebit = \<lparr>input_accountCode = Some ''1000'', input_label = None,
                 input_debit = Some (2 / 100), input_credit = Some 0\<rparr>"

definition bigCredit :: JournalLineInput where
  "bigCredit = \<lparr>input_accountCode = Some ''4000'', input_label = None,
                input_debit = Some 0, input_credit = Some 9000000000000000\<rparr>"

definition bigBody :: CreateJournalEntryBody where
  "bigBody =
     \<lparr>body_companyId = None, body_journalCode = Some ''GEN'', body_date = Some ''2026-01-15'',
      body_memo = None,
      body_lines = Some (replicate 112 bigDebit @ [centsDebit] @ replicate 112 bigCredit)\<rparr>"

text \<open>The draft entry this request creates, with its amounts in hundredths.\<close>

definition bigEntry :: JournalEntry where
  "bigEntry =
     \<lparr>entry_id = ''e9'', entry_companyId = ''default-company-id'', entry_journalId = ''jGEN'',
      entry_date = 0, entry_number = None, entry_status = EntryStatus_DRAFT,
      entry_memo = None, entry_postedAt = None,
      entry_journalLines =
        replicate 112 \<lparr>line_accountId = ''a1000'', line_partnerId = None, line_label = None,
                        line_debit = 900000000000000000, line_credit = 0\<rparr>
        @ [\<lparr>line_accountId = ''a1000'', line_partnerId = None, line_label = None,
            line_debit = 2, line_credit = 0\<rparr>]
        @ replicate 112 \<lparr>line_accountId = ''a4000'', line_partnerId = None, line_label = None,
                          line_debit = 0, line_credit = 900000000000000000\<rparr>\<rparr>"

definition ledgerBig :: store where
  "ledgerBig = seed\<lparr>journalEntries := [bigEntry]\<rparr>"

definition bigPosted :: JournalEntry where
  "bigPosted = bigEntry\<lparr>entry_number := Some ''GEN/2026/0001'',
                        entry_status := EntryStatus_POSTED, entry_postedAt := Some 5\<rparr>"

text \<open>
  Two balanced draft entries of the General journal in the seeded ledger, and the
  ledger once a request to post the first has committed.
\<close>

definition draftEntry2 :: JournalEntry where
  "draftEntry2 = draftEntry\<lparr>entry_id := ''e2''\<rparr>"

definition ledgerTwoDrafts :: store where
  "ledgerTwoDrafts = seed\<lparr>journalEntries := [draftEntry, draftEntry2]\<rparr>"

definition ledgerFirstPosted :: store where
  "ledgerFirstPosted = snd (postJournalEntry year2026 5 ''e1'' ledgerTwoDrafts)"

definition postedEntry2 :: JournalEntry where
  "postedEntry2 = draftEntry2\<lparr>entry_number := Some ''GEN/2026/0002'',
                              entry_status := EntryStatus_POSTED, entry_postedAt := Some 6\<rparr>"

section \<open>How the operations act on the store\<close>

subsection \<open>Posting\<close>

lemma postJournalEntry_tx_Inr:
  assumes "postJournalEntry_tx i entry year now s = Inr (r, s')"
  shows "\<exists>journal e.
      find (\<lambda>j. journal_id j = entry_journalId entry) (journals s) = Some journal
    \<and> find (\<lambda>e. entry_id e = i) (journalEntries s) = Some e
    \<and> r = e\<lparr>entry_number := Some (formatJournalEntryNumber (journal_code journal) year (journal_nextNumber journal)),
            entry_status := EntryStatus_POSTED, entry_postedAt := Some now\<rparr>
    \<and> s' = s\<lparr>journalEntries :=
                 map (\<lambda>x. if entry_id x = i
                           then x\<lparr>entry_number := Some (formatJournalEntryNumber (journal_code journal) year (journal_nextNumber journal)),
                                  entry_status := EntryStatus_POSTED, entry_postedAt := Some now\<rparr>
                           else x) (journalEntries s),
              journals :=
                 map (\<lambda>x. if journal_id x = journal_id journal
                           then x\<lparr>journal_nextNumber := journal_nextNumber x + 1\<rparr>
                           else x) (journals s)\<rparr>"
  using assms
  by (auto simp: postJournalEntry_tx_def tx_bind_def tx_return_def journal_findUniqueOrThrow_def
        journalEntry_update_posted_def journal_update_increment_def Let_def
      split: sum.splits option.splits if_splits prod.splits)

lemma postJournalEntry_Inr:
  assumes "postJournalEntry getFullYear now i s = (Inr r, s')"
  shows "i \<noteq> [] \<and> (\<exists>entry. journalEntry_findUnique i s = Some entry
      \<and> entry_status entry = EntryStatus_DRAFT
      \<and> 2 \<le> length (entry_journalLines entry)
      \<and> fst (totals (entry_journalLines entry) (0, 0)) = snd (totals (entry_journalLines entry) (0, 0))
      \<and> postJournalEntry_tx i entry (getFullYear (entry_date entry)) now s = Inr (r, s'))"
  using assms
  by (auto simp: postJournalEntry_def transaction_def Let_def
      split: sum.splits option.splits if_splits prod.splits)

lemma postJournalEntry_Inl:
  "fst (postJournalEntry getFullYear now i s) = Inl err \<Longrightarrow> snd (postJournalEntry getFullYear now i s) = s"
  by (auto simp: postJournalEntry_def transaction_def Let_def
      split: sum.splits option.splits if_splits prod.splits)


lemma invoiceJournalEntry_sel [simp]:
  "entry_id (invoiceJournalEntry newId entryNow invoice salesJournal arAccount invoiceNumber) = newId"
  "entry_number (invoiceJournalEntry newId entryNow invoice salesJournal arAccount invoiceNumber) = None"
  "entry_status (invoiceJournalEntry newId entryNow invoice salesJournal arAccount invoiceNumber) = EntryStatus_POSTED"
  "entry_companyId (invoiceJournalEntry newId entryNow invoice salesJournal arAccount invoiceNumber) = invoice_companyId invoice"
  "entry_journalLines (invoiceJournalEntry newId entryNow invoice salesJournal arAccount invoiceNumber)
     = invoiceJournalLines invoice arAccount invoiceNumber"
  by (simp_all add: invoiceJournalEntry_def)



lemma postCustomerInvoice_Inl:
  "fst (postCustomerInvoice getFullYear newId entryNow invoiceNow i s) = Inl err
   \<Longrightarrow> snd (postCustomerInvoice getFullYear newId entryNow invoiceNow i s) = s"
  by (auto simp: postCustomerInvoice_def transaction_def Let_def
      split: sum.splits option.splits if_splits prod.splits)


lemma find_id_Some: "find P xs = Some x \<Longrightarrow> P x"
  by (auto simp: find_Some_iff)

lemma postJournalEntry_tx_succeeds:
  assumes j: "find (\<lambda>j. journal_id j = entry_journalId entry) (journals s) = Some journal"
    and e: "find (\<lambda>e. entry_id e = i) (journalEntries s) = Some e"
    and n: "n = formatJournalEntryNumber (journal_code journal) year (journal_nextNumber journal)"
    and u: "\<not> list_ex (\<lambda>e'. entry_id e' \<noteq> i \<and> entry_companyId e' = entry_companyId e
                            \<and> entry_number e' = Some n) (journalEntries s)"
    and m: "journal_nextNumber journal < INTEGER_MAX"
  shows "postJournalEntry_tx i entry year now s =
     Inr (e\<lparr>entry_number := Some n, entry_status := EntryStatus_POSTED, entry_postedAt := Some now\<rparr>,
          s\<lparr>journalEntries :=
                 map (\<lambda>x. if entry_id x = i
                           then x\<lparr>entry_number := Some n,
                                  entry_status := EntryStatus_POSTED, entry_postedAt := Some now\<rparr>
                           else x) (journalEntries s),
              journals :=
                 map (\<lambda>x. if journal_id x = entry_journalId entry
                           then x\<lparr>journal_nextNumber := journal_nextNumber x + 1\<rparr>
                           else x) (journals s)\<rparr>)"
proof -
  from j have jid: "journal_id journal = entry_journalId entry"
    by (rule find_id_Some)
  show ?thesis
    using j e u m
    by (simp add: postJournalEntry_tx_def tx_bind_def tx_return_def journal_findUniqueOrThrow_def
        journalEntry_update_posted_def journal_update_increment_def Let_def jid n)
qed

lemma postJournalEntry_succeeds:
  assumes i: "i \<noteq> []"
    and f: "journalEntry_findUnique i s = Some entry"
    and d: "entry_status entry = EntryStatus_DRAFT"
    and l: "2 \<le> length (entry_journalLines entry)"
    and t: "totals (entry_journalLines entry) (0, 0) = (tot, tot)"
    and j: "find (\<lambda>j. journal_id j = entry_journalId entry) (journals s) = Some journal"
    and n: "n = formatJournalEntryNumber (journal_code journal) (getFullYear (entry_date entry))
                  (journal_nextNumber journal)"
    and u: "\<not> list_ex (\<lambda>e'. entry_id e' \<noteq> i \<and> entry_companyId e' = entry_companyId entry
                            \<and> entry_number e' = Some n) (journalEntries s)"
    and m: "journal_nextNumber journal < INTEGER_MAX"
  shows "postJournalEntry getFullYear now i s =
     (Inr (entry\<lparr>entry_number := Some n, entry_status := EntryStatus_POSTED, entry_postedAt := Some now\<rparr>),
      s\<lparr>journalEntries :=
             map (\<lambda>x. if entry_id x = i
                       then x\<lparr>entry_number := Some n,
                              entry_status := EntryStatus_POSTED, entry_postedAt := Some now\<rparr>
                       else x) (journalEntries s),
          journals :=
             map (\<lambda>x. if journal_id x = entry_journalId entry
                       then x\<lparr>journal_nextNumber := journal_nextNumber x + 1\<rparr>
                       else x) (journals s)\<rparr>)"
proof -
  from f have e: "find (\<lambda>e. entry_id e = i) (journalEntries s) = Some entry"
    by (simp add: journalEntry_findUnique_def)
  note tx = postJournalEntry_tx_succeeds[OF j e n u m]
  show ?thesis
    using i f d l
    by (simp add: postJournalEntry_def t transaction_def tx)
qed


lemma postCustomerInvoice_tx_succeeds:
  assumes c: "find (\<lambda>c. company_id c = invoice_companyId invoice) (companies s) = Some company"
    and v: "find (\<lambda>v. invoice_id v = i) (customerInvoices s) = Some v"
    and b: "invoice_totalAmount invoice
             = fold (\<lambda>line sum. Decimal_plus sum (iline_lineTotal line)) (invoice_lines invoice) 0"
    and fresh: "\<not> list_ex (\<lambda>e'. entry_id e' = newId) (journalEntries s)"
    and n: "n = formatInvoiceNumber (getFullYear (invoice_invoiceDate invoice)) (company_invoiceNextNumber company)"
    and u1: "\<not> list_ex (\<lambda>v'. invoice_id v' \<noteq> i \<and> invoice_companyId v' = invoice_companyId v
                            \<and> invoice_number v' = Some n) (customerInvoices s)"
    and u2: "\<not> list_ex (\<lambda>v'. invoice_id v' \<noteq> i \<and> invoice_journalEntryId v' = Some newId) (customerInvoices s)"
    and m: "company_invoiceNextNumber company < INTEGER_MAX"
  shows "postCustomerInvoice_tx getFullYear newId entryNow invoiceNow i invoice salesJournal arAccount s =
     Inr ((v\<lparr>invoice_status := InvoiceStatus_POSTED, invoice_number := Some n,
              invoice_postedAt := Some invoiceNow, invoice_journalEntryId := Some newId\<rparr>, newId, None),
          s\<lparr>journalEntries := journalEntries s @ [invoiceJournalEntry newId entryNow invoice salesJournal arAccount n],
            customerInvoices :=
                 map (\<lambda>x. if invoice_id x = i
                           then x\<lparr>invoice_status := InvoiceStatus_POSTED, invoice_number := Some n,
                                  invoice_postedAt := Some invoiceNow, invoice_journalEntryId := Some newId\<rparr>
                           else x) (customerInvoices s),
            companies :=
                 map (\<lambda>x. if company_id x = invoice_companyId invoice
                           then x\<lparr>company_invoiceNextNumber := company_invoiceNextNumber x + 1\<rparr>
                           else x) (companies s)\<rparr>)"
  using c v b fresh u1 u2 m
  by (simp add: postCustomerInvoice_tx_def tx_bind_def tx_return_def tx_throw_def company_findUniqueOrThrow_def
        journalEntry_create_def customerInvoice_update_posted_def company_update_increment_def Let_def n)

lemma postCustomerInvoice_succeeds:
  assumes f: "customerInvoice_findUnique i s = Some invoice"
    and d: "invoice_status invoice = InvoiceStatus_DRAFT"
    and l: "invoice_lines invoice \<noteq> []"
    and t: "0 < invoice_totalAmount invoice"
    and sj: "journal_findUnique (invoice_companyId invoice) ''SAL'' s = Some salesJournal"
    and ar: "findAccountsReceivableAccount (invoice_companyId invoice) s = Some arAccount"
    and c: "find (\<lambda>c. company_id c = invoice_companyId invoice) (companies s) = Some company"
    and b: "invoice_totalAmount invoice
             = fold (\<lambda>line sum. Decimal_plus sum (iline_lineTotal line)) (invoice_lines invoice) 0"
    and fresh: "\<not> list_ex (\<lambda>e'. entry_id e' = newId) (journalEntries s)"
    and n: "n = formatInvoiceNumber (getFullYear (invoice_invoiceDate invoice)) (company_invoiceNextNumber company)"
    and u1: "\<not> list_ex (\<lambda>v'. invoice_id v' \<noteq> i \<and> invoice_companyId v' = invoice_companyId invoice
                            \<and> invoice_number v' = Some n) (customerInvoices s)"
    and u2: "\<not> list_ex (\<lambda>v'. invoice_id v' \<noteq> i \<and> invoice_journalEntryId v' = Some newId) (customerInvoices s)"
    and m: "company_invoiceNextNumber company < INTEGER_MAX"
  shows "postCustomerInvoice getFullYear newId entryNow invoiceNow i s =
     (Inr (invoice\<lparr>invoice_status := InvoiceStatus_POSTED, invoice_number := Some n,
              invoice_postedAt := Some invoiceNow, invoice_journalEntryId := Some newId\<rparr>, newId, None),
      s\<lparr>journalEntries := journalEntries s @ [invoiceJournalEntry newId entryNow invoice salesJournal arAccount n],
        customerInvoices :=
             map (\<lambda>x. if invoice_id x = i
                       then x\<lparr>invoice_status := InvoiceStatus_POSTED, invoice_number := Some n,
                              invoice_postedAt := Some invoiceNow, invoice_journalEntryId := Some newId\<rparr>
                       else x) (customerInvoices s),
        companies :=
             map (\<lambda>x. if company_id x = invoice_companyId invoice
                       then x\<lparr>company_invoiceNextNumber := company_invoiceNextNumber x + 1\<rparr>
                       else x) (companies s)\<rparr>)"
proof -
  from f have v: "find (\<lambda>v. invoice_id v = i) (customerInvoices s) = Some invoice"
    by (simp add: customerInvoice_findUnique_def)
  note tx = postCustomerInvoice_tx_succeeds[where getFullYear = getFullYear, OF c v b fresh n u1 u2 m]
  show ?thesis
    using f d l t sj ar
    by (simp add: postCustomerInvoice_def transaction_def tx)
qed

subsection \<open>Decimal digits\<close>







subsection \<open>Rounding to the precision\<close>

lemma show_nat_length_le: "0 < k \<Longrightarrow> a < 10 ^ k \<Longrightarrow> length (show_nat a) \<le> k"
proof (induction k arbitrary: a)
  case 0
  then show ?case by simp
next
  case (Suc k)
  show ?case
  proof (cases "a < 10")
    case True
    then have "show_nat a = [digit_char a]" by simp
    then show ?thesis by simp
  next
    case False
    then have ge: "10 \<le> a" by simp
    with Suc.prems have k: "0 < k" by (cases k) auto
    from Suc.prems have "a div 10 < 10 ^ k"
      by (simp add: less_mult_imp_div_less mult.commute)
    from Suc.IH[OF k this] have "length (show_nat (a div 10)) \<le> k" .
    moreover from ge have "show_nat a = show_nat (a div 10) @ [digit_char (a mod 10)]" by simp
    ultimately show ?thesis by simp
  qed
qed

lemma show_nat_length_gt: "10 ^ k \<le> a \<Longrightarrow> k < length (show_nat a)"
proof (induction k arbitrary: a)
  case 0
  show ?case by (cases "a < 10") simp_all
next
  case (Suc k)
  then have ge: "10 \<le> a"
    by (metis (no_types) le_trans one_le_numeral one_le_power power_Suc mult.right_neutral mult_le_mono2)
  from Suc.prems have "10 ^ k \<le> a div 10"
    by (simp add: less_eq_div_iff_mult_less_eq mult.commute)
  from Suc.IH[OF this] have "k < length (show_nat (a div 10))" .
  moreover from ge have "show_nat a = show_nat (a div 10) @ [digit_char (a mod 10)]" by simp
  ultimately show ?case by simp
qed

lemma sgn_int_nat_abs: "sgn c * int (nat \<bar>c\<bar>) = (c::int)"
  by (simp add: mult_sgn_abs)

lemma Decimal_round_small:
  assumes "\<bar>c\<bar> < 10 ^ 20"
  shows "Decimal_round c = c"
proof -
  from assms have "nat \<bar>c\<bar> < 10 ^ 20"
    by (simp add: nat_less_iff)
  from show_nat_length_le[OF _ this] have "length (show_nat (nat \<bar>c\<bar>)) \<le> 20"
    by (simp del: show_nat.simps)
  then have "length (show_nat (nat \<bar>c\<bar>)) - Decimal_precision = 0"
    by (simp add: Decimal_precision_def del: show_nat.simps)
  then have "Decimal_round c = sgn c * int (nat \<bar>c\<bar>)"
    by (simp add: Decimal_round_def Let_def del: show_nat.simps)
  then show ?thesis
    by (simp only: sgn_int_nat_abs)
qed

lemma Decimal_round_tens:
  assumes "\<bar>c\<bar> < 10 ^ 21" "10 dvd c"
  shows "Decimal_round c = c"
proof (cases "\<bar>c\<bar> < 10 ^ 20")
  case True
  then show ?thesis by (rule Decimal_round_small)
next
  case False
  then have "10 ^ 20 \<le> nat \<bar>c\<bar>"
    by (simp add: le_nat_iff)
  from show_nat_length_gt[OF this] have l: "20 < length (show_nat (nat \<bar>c\<bar>))" .
  from assms(1) have "nat \<bar>c\<bar> < 10 ^ 21"
    by (simp add: nat_less_iff)
  from show_nat_length_le[OF _ this] have "length (show_nat (nat \<bar>c\<bar>)) \<le> 21"
    by (simp del: show_nat.simps)
  with l have len: "length (show_nat (nat \<bar>c\<bar>)) - Decimal_precision = 1"
    by (simp add: Decimal_precision_def del: show_nat.simps)
  from assms(2) have "10 dvd \<bar>c\<bar>"
    by simp
  then obtain k where k: "\<bar>c\<bar> = 10 * k" ..
  then have "0 \<le> k"
    by (metis abs_ge_zero zero_le_mult_iff zero_less_numeral not_less less_le)
  with k have "nat \<bar>c\<bar> = 10 * nat k"
    by (simp add: nat_mult_distrib)
  then have "(nat \<bar>c\<bar> + 5) div 10 * 10 = nat \<bar>c\<bar>"
    by simp
  moreover from len have "Decimal_round c = sgn c * int ((nat \<bar>c\<bar> + 5) div 10 * 10)"
    by (simp only: Decimal_round_def Let_def power_one_right) (simp del: show_nat.simps)
  ultimately have "Decimal_round c = sgn c * int (nat \<bar>c\<bar>)"
    by (simp only:)
  then show ?thesis
    by (simp only: sgn_int_nat_abs)
qed

lemma Decimal_round_code [code]:
  "Decimal_round c =
     (if \<bar>c\<bar> < 100000000000000000000 then c
      else (let a = nat \<bar>c\<bar>;
                p = 10 ^ (length (show_nat a) - Decimal_precision)
            in sgn c * int ((a + p div 2) div p * p)))"
  using Decimal_round_small[of c] by (simp add: Decimal_round_def del: show_nat.simps)

lemma Decimal_plus_small: "\<bar>x + y\<bar> < 100000000000000000000 \<Longrightarrow> Decimal_plus x y = x + y"
  using Decimal_round_small[of "x + y"] by (simp add: Decimal_plus_def)

lemma totals_append: "totals (xs @ ys) acc = totals ys (totals xs acc)"
  by (induction xs acc rule: totals.induct) simp_all

lemma totals_replicate:
  assumes "0 \<le> d" "0 \<le> c" "0 \<le> line_debit l" "0 \<le> line_credit l"
    and "10 dvd d" "10 dvd c" "10 dvd line_debit l" "10 dvd line_credit l"
    and "d + int n * line_debit l < 10 ^ 21" "c + int n * line_credit l < 10 ^ 21"
  shows "totals (replicate n l) (d, c) = (d + int n * line_debit l, c + int n * line_credit l)"
  using assms
proof (induction n arbitrary: d c)
  case 0
  then show ?case by simp
next
  case (Suc n)
  let ?d = "d + line_debit l" and ?c = "c + line_credit l"
  have le: "line_debit l \<le> int (Suc n) * line_debit l" "line_credit l \<le> int (Suc n) * line_credit l"
    using Suc.prems(3,4) by (simp_all add: mult_le_cancel_right1 algebra_simps)
  with Suc.prems have b: "\<bar>?d\<bar> < 10 ^ 21" "\<bar>?c\<bar> < 10 ^ 21"
    by simp_all
  from Suc.prems have dv: "10 dvd ?d" "10 dvd ?c"
    by simp_all
  have r: "Decimal_plus d (line_debit l) = ?d" "Decimal_plus c (line_credit l) = ?c"
    using Decimal_round_tens[OF b(1) dv(1)] Decimal_round_tens[OF b(2) dv(2)]
    by (simp_all add: Decimal_plus_def)
  have e: "?d + int n * line_debit l = d + int (Suc n) * line_debit l"
    "?c + int n * line_credit l = c + int (Suc n) * line_credit l"
    by (simp_all add: algebra_simps)
  have "totals (replicate n l) (?d, ?c) = (?d + int n * line_debit l, ?c + int n * line_credit l)"
    using Suc.prems dv e by (intro Suc.IH) simp_all
  with r e show ?case
    by simp
qed

subsection \<open>Lookups in updated tables\<close>



subsection \<open>Creating a journal entry\<close>

lemma persistJournalEntry_entries:
  "journalEntries (snd (persistJournalEntry e s)) = journalEntries s
   \<or> (journalEntries (snd (persistJournalEntry e s)) = journalEntries s @ [e]
       \<and> entry_id e \<notin> set (map entry_id (journalEntries s)))"
  by (auto simp: persistJournalEntry_def transaction_def journalEntry_create_def list_ex_iff)

lemma draft_persistI:
  "persistJournalEntry e s = (r, s') \<Longrightarrow> entry_status e = EntryStatus_DRAFT \<Longrightarrow> entry_number e = None
   \<Longrightarrow> \<exists>e. entry_status e = EntryStatus_DRAFT \<and> entry_number e = None \<and> persistJournalEntry e s = (r, s')"
  by blast

lemma createJournalEntry_cases:
  assumes "createJournalEntry newDate setHours0 newId body s = (r, s')"
  shows "s' = s
   \<or> (\<exists>e. entry_status e = EntryStatus_DRAFT \<and> entry_number e = None
          \<and> persistJournalEntry e s = (r, s'))"
  using assms
  by (auto simp: createJournalEntry_def Let_def intro!: draft_persistI
      split: sum.splits option.splits if_splits prod.splits)

lemma createJournalEntry_entries:
  "journalEntries (snd (createJournalEntry newDate setHours0 newId body s)) = journalEntries s
   \<or> (\<exists>e. journalEntries (snd (createJournalEntry newDate setHours0 newId body s)) = journalEntries s @ [e]
          \<and> entry_status e = EntryStatus_DRAFT \<and> entry_number e = None
          \<and> entry_id e \<notin> set (map entry_id (journalEntries s)))"
proof -
  obtain r s' where R: "createJournalEntry newDate setHours0 newId body s = (r, s')"
    by (cases "createJournalEntry newDate setHours0 newId body s")
  from createJournalEntry_cases[OF R] show ?thesis
  proof
    assume "s' = s"
    with R show ?thesis by simp
  next
    assume "\<exists>e. entry_status e = EntryStatus_DRAFT \<and> entry_number e = None
              \<and> persistJournalEntry e s = (r, s')"
    then obtain e where e: "entry_status e = EntryStatus_DRAFT" "entry_number e = None"
      and p: "persistJournalEntry e s = (r, s')" by blast
    from persistJournalEntry_entries[of e s] p R e show ?thesis by auto
  qed
qed

lemma createJournalEntry_valid:
  "fst (createJournalEntry newDate setHours0 newId body s) = Inr e \<Longrightarrow> validateBody newDate body = []"
  by (simp add: createJournalEntry_def Let_def split: if_splits)

lemma createJournalEntry_invalid:
  "validateBody newDate body \<noteq> [] \<Longrightarrow>
   createJournalEntry newDate setHours0 newId body s = (Inl (400, join ''; '' (validateBody newDate body)), s)"
  by (simp add: createJournalEntry_def Let_def)

lemma validateLine_Nil: "validateLine k l = [] \<longleftrightarrow> line_accepted l"
  by (auto simp: validateLine_def line_accepted_def falsy_def gt0_def split: option.splits)

lemma validateLines_Nil: "validateLines k ls = [] \<longleftrightarrow> (\<forall>l \<in> set ls. line_accepted l)"
  by (induction ls arbitrary: k) (auto simp: validateLine_Nil)

lemma validateBody_Nil:
  "validateBody newDate body = [] \<Longrightarrow>
     \<exists>ls. body_lines body = Some ls \<and> 2 \<le> length ls \<and> (\<forall>l \<in> set ls. line_accepted l)"
  by (auto simp: validateBody_def validateLines_Nil split: option.splits if_splits)

lemma validateBody_both:
  assumes "body_lines body = Some ls" "l \<in> set ls"
    "input_debit l = Some d" "input_credit l = Some c" "0 < d" "0 < c"
  shows "validateBody newDate body \<noteq> []"
proof
  assume "validateBody newDate body = []"
  from validateBody_Nil[OF this] assms(1,2) have "line_accepted l" by auto
  with assms(3-6) show False
    by (auto simp: line_accepted_def split: option.splits)
qed

subsection \<open>The receivable account\<close>

lemma tryCodes_map_filter:
  "tryCodes codes companyId s =
     (case List.map_filter (coded_candidate companyId s) codes of [] \<Rightarrow> None | a # _ \<Rightarrow> Some a)"
  by (induction codes) (auto simp: List.map_filter_simps coded_candidate_def split: option.splits)

lemma tryCodes_Some:
  "tryCodes codes companyId s = Some a \<Longrightarrow>
     a \<in> set (accounts s) \<and> account_companyId a = companyId \<and> account_type a = ASSET
     \<and> account_code a \<in> set codes"
  by (induction codes) (auto simp: account_findUnique_def find_Some_iff split: option.splits if_splits)

lemma findAccountsReceivableAccount_Some:
  assumes "findAccountsReceivableAccount companyId s = Some a"
  shows "a \<in> set (accounts s) \<and> account_companyId a = companyId \<and> account_type a = ASSET
     \<and> (account_code a \<in> set commonCodes \<or> contains_insensitive (account_name a) ''Receivable'')"
proof (cases "tryCodes commonCodes companyId s")
  case None
  with assms show ?thesis
    by (auto simp: findAccountsReceivableAccount_def find_Some_iff)
next
  case (Some b)
  with assms have "b = a"
    by (simp add: findAccountsReceivableAccount_def)
  with tryCodes_Some[OF Some] show ?thesis by simp
qed

lemma startsWith_iff: "startsWith s p \<longleftrightarrow> (\<exists>v. s = p @ v)"
  by (induction s p rule: startsWith.induct) auto

lemma str_includes_iff: "str_includes s p \<longleftrightarrow> (\<exists>u v. s = u @ p @ v)"
proof (induction s)
  case Nil
  then show ?case by auto
next
  case (Cons c cs)
  show ?case
  proof
    assume "str_includes (c # cs) p"
    then consider "startsWith (c # cs) p" | "str_includes cs p" by auto
    then show "\<exists>u v. c # cs = u @ p @ v"
    proof cases
      case 1
      then obtain v where "c # cs = p @ v" by (auto simp: startsWith_iff)
      then have "c # cs = [] @ p @ v" by simp
      then show ?thesis by blast
    next
      case 2
      with Cons obtain u v where "cs = u @ p @ v" by blast
      then have "c # cs = (c # u) @ p @ v" by simp
      then show ?thesis by blast
    qed
  next
    assume "\<exists>u v. c # cs = u @ p @ v"
    then obtain u v where uv: "c # cs = u @ p @ v" by blast
    show "str_includes (c # cs) p"
    proof (cases u)
      case Nil
      with uv have "startsWith (c # cs) p" by (auto simp: startsWith_iff)
      then show ?thesis by simp
    next
      case (Cons a u')
      with uv have "cs = u' @ p @ v" by simp
      with Cons.IH have "str_includes cs p" by blast
      then show ?thesis by simp
    qed
  qed
qed

subsection \<open>The number a post allocates\<close>




subsection \<open>The examples, evaluated\<close>

lemma created_eq:
  "createJournalEntry parseDate0 sameInstant ''e1'' balancedBody seed
     = (Inr draftEntry, ledgerCreated)"
  unfolding ledgerCreated_def by code_simp

lemma ledgerCreated_eq: "ledgerCreated = seed\<lparr>journalEntries := [draftEntry]\<rparr>"
  unfolding ledgerCreated_def by code_simp

lemma posted_eq:
  "postJournalEntry year2026 5 ''e1'' ledgerCreated = (Inr postedEntry, ledgerPosted)"
  unfolding ledgerPosted_def by code_simp

lemma ledgerPosted_entries: "journalEntries ledgerPosted = [postedEntry]"
  by code_simp

lemma invoicePosted_eq:
  "invoicePosted = (Inr (postedInvoice, ''e2'', None),
     ledger1\<lparr>journalEntries := [draftEntry,
         invoiceJournalEntry ''e2'' 5 draftInvoice (journals seed ! 1) (accounts seed ! 2) ''INV/2026/0001''],
       customerInvoices := [postedInvoice],
       companies := map (\<lambda>x. x\<lparr>company_invoiceNextNumber := 2\<rparr>) (companies seed)\<rparr>)"
  unfolding invoicePosted_def by code_simp

lemma show_decimal_examples:
  "show_decimal 10001 = ''100.01''" "show_decimal 10000 = ''100''"
  by (simp_all add: show_decimal_def digit_char_def Let_def)

lemma unbalanced_message:
  "str_includes ''Journal entry is unbalanced. Debit: 100.01, Credit: 100'' ''unbalanced''"
  by code_simp

lemma ledger2_lookups:
  "journalEntry_findUnique ''e7'' ledger2 = None"
  "customerInvoice_findUnique ''i2'' ledger2 = Some unbalancedInvoice"
  "invoice_companyId unbalancedInvoice = ''default-company-id''"
  "invoice_status unbalancedInvoice = InvoiceStatus_DRAFT"
  "invoice_lines unbalancedInvoice \<noteq> []"
  "invoice_totalAmount unbalancedInvoice = 10001"
  "fold (\<lambda>line sum. Decimal_plus sum (iline_lineTotal line)) (invoice_lines unbalancedInvoice) 0 = 10000"
  "journal_findUnique ''default-company-id'' ''SAL'' ledger2 = Some (journals seed ! 1)"
  "findAccountsReceivableAccount ''default-company-id'' ledger2 = Some (accounts seed ! 2)"
  "company_findUniqueOrThrow ''default-company-id'' ledger2 = Inr (hd (companies seed), ledger2)"
  by (simp_all add: journalEntry_findUnique_def customerInvoice_findUnique_def journal_findUnique_def
      findAccountsReceivableAccount_def commonCodes_def account_findUnique_def company_findUniqueOrThrow_def
      ledger2_def seed_def draftEntry_def draftInvoice_def unbalancedInvoice_def Decimal_plus_small)

lemma unbalanced_tx:
  "postCustomerInvoice_tx year2026 ''e2'' 5 6 ''i2'' unbalancedInvoice j a ledger2
     = Inl (Error ''Journal entry is unbalanced. Debit: 100.01, Credit: 100'')"
  by (simp add: postCustomerInvoice_tx_def tx_bind_def tx_throw_def ledger2_lookups Let_def
      show_decimal_examples)

lemma ledger2_post_missing: "postJournalEntry year2026 5 ''e7'' ledger2 = (Inl (404, ''Journal entry with id e7 not found''), ledger2)"
  by (simp add: postJournalEntry_def ledger2_lookups)

lemma ledger2_post_unbalanced: "postCustomerInvoice year2026 ''e2'' 5 6 ''i2'' ledger2
       = (Inl (400, ''Journal entry is unbalanced. Debit: 100.01, Credit: 100''), ledger2)"
  by (simp add: postCustomerInvoice_def ledger2_lookups transaction_def unbalanced_tx Error_def
      unbalanced_message)

lemma ledgerNoAR_lookups:
  "customerInvoice_findUnique ''i1'' ledgerNoAR = Some draftInvoice"
  "journal_findUnique ''default-company-id'' ''SAL'' ledgerNoAR = Some (journals seed ! 1)"
  "findAccountsReceivableAccount ''default-company-id'' ledgerNoAR = None"
  "findAccountsReceivableAccount ''default-company-id'' seed = Some (accounts seed ! 2)"
  "findAccountsReceivableAccount ''default-company-id'' ledgerNamedAR = Some namedAR"
  by code_simp+

lemma zeroBody_created:
  "createJournalEntry parseDate0 sameInstant ''e9'' zeroBody seed =
    (Inr \<lparr>entry_id = ''e9'', entry_companyId = ''default-company-id'', entry_journalId = ''jGEN'',
          entry_date = 0, entry_number = None, entry_status = EntryStatus_DRAFT,
          entry_memo = None, entry_postedAt = None,
          entry_journalLines =
            [\<lparr>line_accountId = ''a1000'', line_partnerId = None, line_label = None,
              line_debit = 0, line_credit = 0\<rparr>,
             \<lparr>line_accountId = ''a4000'', line_partnerId = None, line_label = None,
              line_debit = 0, line_credit = 0\<rparr>]\<rparr>,
     seed\<lparr>journalEntries :=
          [\<lparr>entry_id = ''e9'', entry_companyId = ''default-company-id'', entry_journalId = ''jGEN'',
          entry_date = 0, entry_number = None, entry_status = EntryStatus_DRAFT,
          entry_memo = None, entry_postedAt = None,
          entry_journalLines =
            [\<lparr>line_accountId = ''a1000'', line_partnerId = None, line_label = None,
              line_debit = 0, line_credit = 0\<rparr>,
             \<lparr>line_accountId = ''a4000'', line_partnerId = None, line_label = None,
              line_debit = 0, line_credit = 0\<rparr>]\<rparr>]\<rparr>)"
  by code_simp

lemma ledgerDup_post:
  "postCustomerInvoice year2026 ''e2'' 5 6 ''i1'' ledgerDup
     = (Inl (500, ''Failed to post customer invoice''), ledgerDup)"
  by code_simp

lemma ledgerDup_entry_written:
  "journalEntry_create (invoiceJournalEntry ''e2'' 5 draftInvoice (journals seed ! 1) (accounts seed ! 2)
       ''INV/2026/0001'') ledgerDup
     = Inr (invoiceJournalEntry ''e2'' 5 draftInvoice (journals seed ! 1) (accounts seed ! 2) ''INV/2026/0001'',
            ledgerDup\<lparr>journalEntries := [draftEntry,
              invoiceJournalEntry ''e2'' 5 draftInvoice (journals seed ! 1) (accounts seed ! 2) ''INV/2026/0001'']\<rparr>)"
  by code_simp

subsection \<open>An entry whose totals pass the precision\<close>

lemma bigEntry_sel:
  "entry_id bigEntry = ''e9''" "entry_companyId bigEntry = ''default-company-id''"
  "entry_journalId bigEntry = ''jGEN''" "entry_date bigEntry = 0"
  "entry_status bigEntry = EntryStatus_DRAFT" "entry_number bigEntry = None"
  "entry_journalLines bigEntry =
        replicate 112 \<lparr>line_accountId = ''a1000'', line_partnerId = None, line_label = None,
                        line_debit = 900000000000000000, line_credit = 0\<rparr>
        @ [\<lparr>line_accountId = ''a1000'', line_partnerId = None, line_label = None,
            line_debit = 2, line_credit = 0\<rparr>]
        @ replicate 112 \<lparr>line_accountId = ''a4000'', line_partnerId = None, line_label = None,
                          line_debit = 0, line_credit = 900000000000000000\<rparr>"
  by (simp_all add: bigEntry_def)

lemma bigEntry_sums:
  "totalDebit bigEntry = 100800000000000000002" "totalCredit bigEntry = 100800000000000000000"
  by (simp_all add: totalDebit_def totalCredit_def bigEntry_sel sum_list_replicate)

lemma length_show_nat_21: "length (show_nat 100800000000000000002) = 21"
proof -
  have "20 < length (show_nat 100800000000000000002)"
    by (rule show_nat_length_gt) simp
  moreover have "length (show_nat 100800000000000000002) \<le> 21"
    by (rule show_nat_length_le) simp_all
  ultimately show ?thesis by simp
qed

lemma cents_rounded_away: "Decimal_plus 100800000000000000000 2 = 100800000000000000000"
proof -
  have "Decimal_round 100800000000000000002 = 100800000000000000000"
    by (simp add: Decimal_round_def Decimal_precision_def Let_def length_show_nat_21 del: show_nat.simps)
  then show ?thesis
    by (simp add: Decimal_plus_def)
qed

lemma bigEntry_totals:
  "totals (entry_journalLines bigEntry) (0, 0) = (100800000000000000000, 100800000000000000000)"
proof -
  let ?D = "\<lparr>line_accountId = ''a1000'', line_partnerId = None, line_label = None,
             line_debit = 900000000000000000, line_credit = 0\<rparr>"
  let ?C = "\<lparr>line_accountId = ''a4000'', line_partnerId = None, line_label = None,
             line_debit = 0, line_credit = 900000000000000000\<rparr>"
  have 1: "totals (replicate 112 ?D) (0, 0) = (100800000000000000000, 0)"
    using totals_replicate[of 0 0 ?D 112] by simp
  have 2: "totals [\<lparr>line_accountId = ''a1000'', line_partnerId = None, line_label = None,
            line_debit = 2, line_credit = 0\<rparr>] (100800000000000000000, 0) = (100800000000000000000, 0)"
    by (simp add: cents_rounded_away Decimal_plus_small)
  have 3: "totals (replicate 112 ?C) (100800000000000000000, 0)
           = (100800000000000000000, 100800000000000000000)"
    using totals_replicate[of 100800000000000000000 0 ?C 112] by simp
  show ?thesis
    by (simp only: bigEntry_sel totals_append 1 2 3)
qed

lemma newJournalLines_append:
  "newJournalLines found (xs @ ys) =
     (case newJournalLines found xs of
        None \<Rightarrow> None
      | Some a \<Rightarrow> (case newJournalLines found ys of None \<Rightarrow> None | Some b \<Rightarrow> Some (a @ b)))"
  by (induction xs) (auto split: option.splits)

lemma newJournalLines_replicate:
  "newJournalLines found [l] = Some [l'] \<Longrightarrow>
   newJournalLines found (replicate n l) = Some (replicate n l')"
  by (induction n) (auto split: option.splits)

lemma bigBody_sel:
  "body_companyId bigBody = None" "body_journalCode bigBody = Some ''GEN''"
  "body_date bigBody = Some ''2026-01-15''" "body_memo bigBody = None"
  "body_lines bigBody = Some (replicate 112 bigDebit @ [centsDebit] @ replicate 112 bigCredit)"
  by (simp_all add: bigBody_def)

lemma bigBody_valid: "validateBody parseDate0 bigBody = []"
proof -
  have "dateRegex_test ''2026-01-15''"
    by (simp add: dateRegex_test_def isDigit_def)
  moreover have "line_accepted bigDebit" "line_accepted centsDebit" "line_accepted bigCredit"
    by (simp_all add: line_accepted_def bigDebit_def centsDebit_def bigCredit_def)
  ultimately show ?thesis
    by (auto simp: validateBody_def bigBody_sel falsy_def parseDate0_def validateLines_Nil)
qed

lemma toDecimal2_examples:
  "toDecimal2 9000000000000000 = 900000000000000000" "toDecimal2 (2 / 100) = 2"
  "toDecimal2 (1 / 50) = 2" "toDecimal2 0 = 0"
  by (simp_all add: toDecimal2_def floor_eq_iff)

lemma bigBody_lines:
  "newJournalLines [accounts seed ! 0, accounts seed ! 4]
       (replicate 112 bigDebit @ [centsDebit] @ replicate 112 bigCredit)
     = Some (entry_journalLines bigEntry)"
proof -
  let ?found = "[accounts seed ! 0, accounts seed ! 4]"
  have 1: "newJournalLines ?found [bigDebit]
      = Some [\<lparr>line_accountId = ''a1000'', line_partnerId = None, line_label = None,
                line_debit = 900000000000000000, line_credit = 0\<rparr>]"
    by (simp add: bigDebit_def seed_def falsy_def toDecimal2_examples)
  have 2: "newJournalLines ?found [centsDebit]
      = Some [\<lparr>line_accountId = ''a1000'', line_partnerId = None, line_label = None,
                line_debit = 2, line_credit = 0\<rparr>]"
    by (simp add: centsDebit_def seed_def falsy_def toDecimal2_examples)
  have 3: "newJournalLines ?found [bigCredit]
      = Some [\<lparr>line_accountId = ''a4000'', line_partnerId = None, line_label = None,
                line_debit = 0, line_credit = 900000000000000000\<rparr>]"
    by (simp add: bigCredit_def seed_def falsy_def toDecimal2_examples)
  show ?thesis
    by (simp only: newJournalLines_append newJournalLines_replicate[OF 1] 2
        newJournalLines_replicate[OF 3] bigEntry_sel option.case)
qed

lemma bigBody_created:
  "createJournalEntry parseDate0 sameInstant ''e9'' bigBody seed = (Inr bigEntry, ledgerBig)"
proof -
  define L where "L = replicate 112 bigDebit @ [centsDebit] @ replicate 112 bigCredit"
  define CODES where "CODES = replicate 112 ''1000'' @ [''1000''] @ replicate 112 ''4000''"
  have body: "falsy (body_companyId bigBody)" "string_of (body_journalCode bigBody) = ''GEN''"
    "string_of (body_date bigBody) = ''2026-01-15''" "array_of (body_lines bigBody) = L"
    "falsy (body_memo bigBody)"
    by (simp_all add: bigBody_sel falsy_def string_of_def array_of_def L_def)
  have company: "company_findFirst_createdAt seed = Some (companies seed ! 0)"
    "company_id (companies seed ! 0) = ''default-company-id''"
    "find (\<lambda>c. company_id c = ''default-company-id'') (companies seed) = Some (companies seed ! 0)"
    by (simp_all add: company_findFirst_createdAt_def seed_def)
  have journal: "journal_findUnique ''default-company-id'' ''GEN'' seed = Some (journals seed ! 0)"
    "journal_id (journals seed ! 0) = ''jGEN''"
    by (simp_all add: journal_findUnique_def seed_def)
  have codes: "map (\<lambda>line. string_of (input_accountCode line)) L = CODES"
    by (simp add: L_def CODES_def string_of_def bigDebit_def centsDebit_def bigCredit_def)
  have codeset: "set CODES = {''1000'', ''4000''}"
    by (auto simp: CODES_def)
  have found: "filter (\<lambda>a. account_companyId a = ''default-company-id''
                          \<and> account_code a \<in> set CODES) (accounts seed)
               = [accounts seed ! 0, accounts seed ! 4]"
    by (simp add: codeset seed_def)
  have missing: "filter (\<lambda>code. code \<notin> set (map account_code [accounts seed ! 0, accounts seed ! 4])) CODES = []"
    by (simp add: CODES_def seed_def)
  have lines: "newJournalLines [accounts seed ! 0, accounts seed ! 4] L = Some (entry_journalLines bigEntry)"
    unfolding L_def by (rule bigBody_lines)
  have fits: "list_all (\<lambda>l. fitsDecimal18 (line_debit l) \<and> fitsDecimal18 (line_credit l))
                (entry_journalLines bigEntry)"
    by (simp add: bigEntry_sel fitsDecimal18_def list_all_iff)
  have data: "\<lparr>entry_id = ''e9'', entry_companyId = ''default-company-id'',
               entry_journalId = ''jGEN'', entry_date = sameInstant 0, entry_number = None,
               entry_status = EntryStatus_DRAFT, entry_memo = None, entry_postedAt = None,
               entry_journalLines = entry_journalLines bigEntry\<rparr> = bigEntry"
    by (simp add: bigEntry_def sameInstant_def)
  have persist: "persistJournalEntry bigEntry seed = (Inr bigEntry, ledgerBig)"
    by (simp add: persistJournalEntry_def transaction_def journalEntry_create_def ledgerBig_def
        bigEntry_sel seed_def)
  show ?thesis
    unfolding createJournalEntry_def
    by (simp only: bigBody_valid body company journal codes found missing parseDate0_def lines fits
        data persist Let_def simp_thms if_True if_False option.case sum.case prod.case)
qed

lemma GEN_2026_numbers:
  "formatJournalEntryNumber ''GEN'' (year2026 t) 1 = ''GEN/2026/0001''"
  "formatJournalEntryNumber ''GEN'' (year2026 t) 2 = ''GEN/2026/0002''"
  unfolding year2026_def by code_simp+

lemma bigEntry_posted:
  "postJournalEntry year2026 5 ''e9'' ledgerBig =
     (Inr (bigEntry\<lparr>entry_number := Some ''GEN/2026/0001'', entry_status := EntryStatus_POSTED,
                    entry_postedAt := Some 5\<rparr>),
      ledgerBig\<lparr>journalEntries :=
                  [bigEntry\<lparr>entry_number := Some ''GEN/2026/0001'', entry_status := EntryStatus_POSTED,
                            entry_postedAt := Some 5\<rparr>],
                journals :=
                  map (\<lambda>x. if journal_id x = ''jGEN''
                            then x\<lparr>journal_nextNumber := journal_nextNumber x + 1\<rparr>
                            else x) (journals seed)\<rparr>)"
proof -
  have f: "journalEntry_findUnique ''e9'' ledgerBig = Some bigEntry"
    by (simp add: journalEntry_findUnique_def ledgerBig_def bigEntry_sel)
  have l: "2 \<le> length (entry_journalLines bigEntry)"
    by (simp add: bigEntry_sel)
  have j: "find (\<lambda>j. journal_id j = entry_journalId bigEntry) (journals ledgerBig) = Some (journals seed ! 0)"
    by (simp add: bigEntry_sel ledgerBig_def seed_def)
  have n: "''GEN/2026/0001'' = formatJournalEntryNumber (journal_code (journals seed ! 0))
              (year2026 (entry_date bigEntry)) (journal_nextNumber (journals seed ! 0))"
    by (simp add: GEN_2026_numbers seed_def)
  have u: "\<not> list_ex (\<lambda>e'. entry_id e' \<noteq> ''e9'' \<and> entry_companyId e' = entry_companyId bigEntry
                            \<and> entry_number e' = Some ''GEN/2026/0001'') (journalEntries ledgerBig)"
    by (simp add: ledgerBig_def bigEntry_sel)
  have m: "journal_nextNumber (journals seed ! 0) < INTEGER_MAX"
    by (simp add: seed_def INTEGER_MAX_def)
  from postJournalEntry_succeeds[where getFullYear = year2026 and now = 5, OF _ f bigEntry_sel(5) l bigEntry_totals j n u m]
  show ?thesis
    by (simp add: ledgerBig_def bigEntry_sel)
qed

subsection \<open>Two posts that overlap\<close>

lemma postJournalEntry_tx_writes:
  "postJournalEntry_tx i entry year now
     = tx_bind (journal_findUniqueOrThrow (entry_journalId entry)) (postJournalEntry_writes i year now)"
  by (simp add: postJournalEntry_tx_def postJournalEntry_writes_def[abs_def])

lemma transaction_after_read:
  "(case journal_findUniqueOrThrow j s of
      Inl error \<Rightarrow> (Inl error, s)
    | Inr (journal, _) \<Rightarrow> transaction (writes journal) s)
   = transaction (tx_bind (journal_findUniqueOrThrow j) writes) s"
  by (simp add: transaction_def tx_bind_def journal_findUniqueOrThrow_def split: option.splits)

lemma postJournalEntry_concurrent_same:
  "postJournalEntry_concurrent getFullYear now i s s = postJournalEntry getFullYear now i s"
  unfolding postJournalEntry_concurrent_def postJournalEntry_def postJournalEntry_tx_writes
    transaction_after_read ..

lemma ledgerTwoDrafts_first:
  "postJournalEntry year2026 5 ''e1'' ledgerTwoDrafts = (Inr postedEntry, ledgerFirstPosted)"
  unfolding ledgerFirstPosted_def by code_simp

lemma ledgerFirstPosted_eq:
  "ledgerFirstPosted = seed\<lparr>journalEntries := [postedEntry, draftEntry2],
      journals := map (\<lambda>x. if journal_id x = ''jGEN''
                            then x\<lparr>journal_nextNumber := journal_nextNumber x + 1\<rparr>
                            else x) (journals seed)\<rparr>"
  unfolding ledgerFirstPosted_def by code_simp

lemma ledgerTwoDrafts_second_stale:
  "postJournalEntry_concurrent year2026 6 ''e2'' ledgerTwoDrafts ledgerFirstPosted
     = (Inl (500, ''Failed to post journal entry''), ledgerFirstPosted)"
  by code_simp

lemma ledgerTwoDrafts_second_after:
  "fst (postJournalEntry year2026 6 ''e2'' ledgerFirstPosted)
     = Inr (draftEntry2\<lparr>entry_number := Some ''GEN/2026/0002'', entry_status := EntryStatus_POSTED,
                       entry_postedAt := Some 6\<rparr>)"
  by code_simp

lemma stale_write_refused:
  "journal_findUniqueOrThrow ''jGEN'' ledgerTwoDrafts = Inr (journals seed ! 0, ledgerTwoDrafts)"
  "journal_nextNumber (journals seed ! 0) = 1"
  "journalEntry_update_posted ''e2'' ''GEN/2026/0001'' 6 ledgerFirstPosted
     = Inl (P2002 [''companyId'', ''number''])"
  by code_simp+


section \<open>The claims of the specification\<close>

text \<open>
  Claim C1. The specification says that a journal entry whose status is POSTED always
  has a number, the entry an invoice post creates included. The code creates that
  entry with status POSTED and number null (its comment defers the number to a later
  post of the entry), and \<open>postJournalEntry\<close> refuses an entry that is not DRAFT.
  On the seeded ledger with one draft entry \<open>e1\<close> and one draft invoice, posting the
  invoice leaves the new entry \<open>e2\<close> POSTED without a number, and posting \<open>e2\<close>
  afterwards is a Conflict that changes nothing.
\<close>

theorem invoice_entry_posted_without_number:
  "map (\<lambda>e. (entry_id e, entry_status e, entry_number e)) (journalEntries (snd invoicePosted))
     = [(''e1'', EntryStatus_DRAFT, None), (''e2'', EntryStatus_POSTED, None)]
   \<and> postJournalEntry year2026 7 ''e2'' (snd invoicePosted)
     = (Inl (409, ''Journal entry is already posted (status: POSTED)''), snd invoicePosted)"
proof -
  have "map (\<lambda>e. (entry_id e, entry_status e, entry_number e)) (journalEntries (snd invoicePosted))
     = [(''e1'', EntryStatus_DRAFT, None), (''e2'', EntryStatus_POSTED, None)]"
    by (simp add: invoicePosted_eq draftEntry_def)
  moreover have "postJournalEntry year2026 7 ''e2'' (snd invoicePosted)
     = (Inl (409, ''Journal entry is already posted (status: POSTED)''), snd invoicePosted)"
    by (simp add: invoicePosted_eq postJournalEntry_def journalEntry_findUnique_def draftEntry_def
        show_EntryStatus_def)
  ultimately show ?thesis by simp
qed

text \<open>
  Claim C2. The specification says that an invoice post allocates the posted-number of
  the entry it creates at once and increments the counter of the Sales journal in the
  same transaction. On the seeded ledger the post succeeds, the summary of the new
  entry carries no number, every journal counter (the Sales journal's too) is what it
  was, and only the invoice counter of the company has moved from 1 to 2.
\<close>

theorem invoice_post_leaves_journal_counter:
  "fst invoicePosted = Inr (postedInvoice, ''e2'', None)
   \<and> journals (snd invoicePosted) = journals ledger1
   \<and> map (\<lambda>j. (journal_code j, journal_nextNumber j)) (journals (snd invoicePosted))
       = [(''GEN'', 1), (''SAL'', 1), (''PUR'', 1), (''BNK'', 1)]
   \<and> map company_invoiceNextNumber (companies ledger1) = [1]
   \<and> map company_invoiceNextNumber (companies (snd invoicePosted)) = [2]"
  by (simp add: invoicePosted_eq ledger1_def seed_def)

text \<open>
  Claim C3. The specification says that a journal entry reaches POSTED only if the sum
  of its debits equals the sum of its credits, exactly, to two decimal places.
  \<open>postJournalEntry\<close> adds each column with \<open>Decimal.plus\<close>, which rounds every
  partial sum to 20 significant digits, and compares the two rounded totals. On the
  seeded ledger the request \<open>bigBody\<close> (112 debits of 9000000000000000.00 and one
  of 0.02 against 112 credits of 9000000000000000.00) is accepted and stored as the
  draft \<open>e9\<close>. Its debits are 1008000000000000000.02 and its credits
  1008000000000000000.00; the loop computes 1008000000000000000 for both, and the
  entry is posted under the number GEN/2026/0001 with its debits 0.02 above its credits.
\<close>

theorem unbalanced_entry_is_posted:
  "createJournalEntry parseDate0 sameInstant ''e9'' bigBody seed = (Inr bigEntry, ledgerBig)
   \<and> journalEntries ledgerBig = [bigEntry]
   \<and> entry_status bigEntry = EntryStatus_DRAFT
   \<and> totals (entry_journalLines bigEntry) (0, 0) = (100800000000000000000, 100800000000000000000)
   \<and> fst (postJournalEntry year2026 5 ''e9'' ledgerBig) = Inr bigPosted
   \<and> journalEntries (snd (postJournalEntry year2026 5 ''e9'' ledgerBig)) = [bigPosted]
   \<and> entry_status bigPosted = EntryStatus_POSTED
   \<and> entry_number bigPosted = Some ''GEN/2026/0001''
   \<and> totalDebit bigPosted = 100800000000000000002
   \<and> totalCredit bigPosted = 100800000000000000000"
proof -
  have "totalDebit bigPosted = totalDebit bigEntry" "totalCredit bigPosted = totalCredit bigEntry"
    by (simp_all add: bigPosted_def totalDebit_def totalCredit_def)
  then have "totalDebit bigPosted = 100800000000000000002" "totalCredit bigPosted = 100800000000000000000"
    by (simp_all add: bigEntry_sums)
  moreover have "entry_status bigPosted = EntryStatus_POSTED" "entry_number bigPosted = Some ''GEN/2026/0001''"
    by (simp_all add: bigPosted_def)
  moreover have "journalEntries ledgerBig = [bigEntry]"
    by (simp add: ledgerBig_def)
  ultimately show ?thesis
    by (simp add: bigBody_created bigEntry_sel(5) bigEntry_totals bigEntry_posted bigPosted_def)
qed

text \<open>
  Claim C4. The specification says that the posting transaction first takes an
  exclusive lock on the counter row, so that two concurrent posts of different DRAFT
  documents of one scope both succeed, with distinct sequential numbers. The code's
  comment announces the lock (\<open>Lock the journal row by fetching it again in the
  transaction\<close>), but the fetch is a plain read and nothing takes a lock. The seeded
  ledger holds two balanced drafts \<open>e1\<close> and \<open>e2\<close> of the General journal, and
  two requests both read the counter 1 before either writes. The first commits:
  \<open>e1\<close> is GEN/2026/0001 and the counter is 2. The second then writes the number
  GEN/2026/0001, which it has formatted from its own read; the unique index on
  (companyId, number) refuses it, the transaction is rolled back and the answer is
  status 500, with \<open>e2\<close> still a DRAFT without a number. The same request made
  after the commit of the first succeeds with GEN/2026/0002.
\<close>

theorem overlapping_posts_second_fails:
  "map (\<lambda>e. (entry_id e, entry_journalId e, entry_status e, entry_number e)) (journalEntries ledgerTwoDrafts)
     = [(''e1'', ''jGEN'', EntryStatus_DRAFT, None), (''e2'', ''jGEN'', EntryStatus_DRAFT, None)]
   \<and> journal_findUniqueOrThrow ''jGEN'' ledgerTwoDrafts = Inr (journals seed ! 0, ledgerTwoDrafts)
   \<and> journal_nextNumber (journals seed ! 0) = 1
   \<and> postJournalEntry_concurrent year2026 5 ''e1'' ledgerTwoDrafts ledgerTwoDrafts
       = (Inr postedEntry, ledgerFirstPosted)
   \<and> map (\<lambda>e. (entry_id e, entry_status e, entry_number e)) (journalEntries ledgerFirstPosted)
       = [(''e1'', EntryStatus_POSTED, Some ''GEN/2026/0001''), (''e2'', EntryStatus_DRAFT, None)]
   \<and> map (\<lambda>j. (journal_code j, journal_nextNumber j)) (journals ledgerFirstPosted)
       = [(''GEN'', 2), (''SAL'', 1), (''PUR'', 1), (''BNK'', 1)]
   \<and> journalEntry_update_posted ''e2'' ''GEN/2026/0001'' 6 ledgerFirstPosted
       = Inl (P2002 [''companyId'', ''number''])
   \<and> postJournalEntry_concurrent year2026 6 ''e2'' ledgerTwoDrafts ledgerFirstPosted
       = (Inl (500, ''Failed to post journal entry''), ledgerFirstPosted)
   \<and> fst (postJournalEntry year2026 6 ''e2'' ledgerFirstPosted) = Inr postedEntry2"
proof -
  have "map (\<lambda>e. (entry_id e, entry_journalId e, entry_status e, entry_number e)) (journalEntries ledgerTwoDrafts)
     = [(''e1'', ''jGEN'', EntryStatus_DRAFT, None), (''e2'', ''jGEN'', EntryStatus_DRAFT, None)]"
    by (simp add: ledgerTwoDrafts_def draftEntry2_def draftEntry_def)
  moreover have "map (\<lambda>e. (entry_id e, entry_status e, entry_number e)) (journalEntries ledgerFirstPosted)
       = [(''e1'', EntryStatus_POSTED, Some ''GEN/2026/0001''), (''e2'', EntryStatus_DRAFT, None)]"
    by (simp add: ledgerFirstPosted_eq postedEntry_def draftEntry2_def draftEntry_def)
  moreover have "map (\<lambda>j. (journal_code j, journal_nextNumber j)) (journals ledgerFirstPosted)
       = [(''GEN'', 2), (''SAL'', 1), (''PUR'', 1), (''BNK'', 1)]"
    by (simp add: ledgerFirstPosted_eq seed_def)
  moreover have "postJournalEntry_concurrent year2026 5 ''e1'' ledgerTwoDrafts ledgerTwoDrafts
       = (Inr postedEntry, ledgerFirstPosted)"
    by (simp only: postJournalEntry_concurrent_same ledgerTwoDrafts_first)
  moreover have "fst (postJournalEntry year2026 6 ''e2'' ledgerFirstPosted) = Inr postedEntry2"
    by (simp add: ledgerTwoDrafts_second_after postedEntry2_def)
  ultimately show ?thesis
    by (simp add: stale_write_refused ledgerTwoDrafts_second_stale)
qed

text \<open>
  Claim C5, as the specification states it: posting a journal entry or a customer
  invoice that is not DRAFT always fails with a Conflict error that reports the
  status, and changes nothing. For an invoice the code answers with status 400, not
  409: the ledger \<open>ledger3\<close> holds a POSTED invoice, and posting it again is a bad
  request.
\<close>

theorem posted_invoice_repost_is_bad_request:
  "customerInvoice_findUnique ''i1'' ledger3 = Some postedInvoice
   \<and> invoice_status postedInvoice = InvoiceStatus_POSTED
   \<and> postCustomerInvoice year2026 ''e3'' 7 8 ''i1'' ledger3
       = (Inl (400, ''Invoice cannot be posted. Current status: POSTED. Only DRAFT invoices can be posted.''),
          ledger3)
   \<and> error_status (fst (postCustomerInvoice year2026 ''e3'' 7 8 ''i1'' ledger3)) \<noteq> Some 409"
proof -
  have f: "customerInvoice_findUnique ''i1'' ledger3 = Some postedInvoice"
    by (simp add: customerInvoice_findUnique_def ledger3_def postedInvoice_def draftInvoice_def)
  have st: "invoice_status postedInvoice = InvoiceStatus_POSTED"
    by (simp add: postedInvoice_def)
  from f st have "postCustomerInvoice year2026 ''e3'' 7 8 ''i1'' ledger3
       = (Inl (400, ''Invoice cannot be posted. Current status: POSTED. Only DRAFT invoices can be posted.''),
          ledger3)"
    by (simp add: postCustomerInvoice_def show_InvoiceStatus_def)
  with f st show ?thesis
    by (simp add: error_status_def)
qed

text \<open>
  Claim C5, amended: posting a journal entry whose status is not DRAFT fails with a
  Conflict (409) whose message reports the status; posting a customer invoice whose
  status is not DRAFT fails with a bad request (400) whose message names the status;
  in both cases the store, and with it the number, the posting time and the status of
  the document, is what it was. (An entry is addressed by a route parameter, which is
  never empty.)
\<close>

theorem post_nonDraft_rejected:
  "(entryId \<noteq> [] \<and> journalEntry_findUnique entryId s = Some entry
      \<and> entry_status entry \<noteq> EntryStatus_DRAFT
      \<longrightarrow> postJournalEntry getFullYear now entryId s
          = (Inl (409, ''Journal entry is already posted (status: ''
                       @ show_EntryStatus (entry_status entry) @ '')''), s))
   \<and> (customerInvoice_findUnique invoiceId t = Some invoice
      \<and> invoice_status invoice \<noteq> InvoiceStatus_DRAFT
      \<longrightarrow> postCustomerInvoice getFullYear newId entryNow invoiceNow invoiceId t
          = (Inl (400, ''Invoice cannot be posted. Current status: ''
                       @ show_InvoiceStatus (invoice_status invoice)
                       @ ''. Only DRAFT invoices can be posted.''), t))"
  by (simp add: postJournalEntry_def postCustomerInvoice_def)

theorem post_nonDraft_rejected_witness:
  "journalEntry_findUnique ''e1'' ledger3 = Some postedEntry
   \<and> entry_status postedEntry \<noteq> EntryStatus_DRAFT
   \<and> postJournalEntry year2026 7 ''e1'' ledger3
       = (Inl (409, ''Journal entry is already posted (status: POSTED)''), ledger3)
   \<and> customerInvoice_findUnique ''i1'' ledger3 = Some postedInvoice
   \<and> invoice_status postedInvoice \<noteq> InvoiceStatus_DRAFT
   \<and> postCustomerInvoice year2026 ''e3'' 7 8 ''i1'' ledger3
       = (Inl (400, ''Invoice cannot be posted. Current status: POSTED. Only DRAFT invoices can be posted.''),
          ledger3)"
proof -
  have fe: "journalEntry_findUnique ''e1'' ledger3 = Some postedEntry"
    by (simp add: journalEntry_findUnique_def ledger3_def postedEntry_def draftEntry_def)
  have se: "entry_status postedEntry = EntryStatus_POSTED"
    by (simp add: postedEntry_def)
  have fi: "customerInvoice_findUnique ''i1'' ledger3 = Some postedInvoice"
    by (simp add: customerInvoice_findUnique_def ledger3_def postedInvoice_def draftInvoice_def)
  have si: "invoice_status postedInvoice = InvoiceStatus_POSTED"
    by (simp add: postedInvoice_def)
  from post_nonDraft_rejected[of "''e1''" ledger3 postedEntry year2026 7 "''i1''" ledger3 postedInvoice
      "''e3''" 7 8] fe se fi si
  show ?thesis
    by (simp add: show_EntryStatus_def show_InvoiceStatus_def)
qed

text \<open>
  Claim C6. Whenever a post operation fails, for whatever reason (the document is not
  found or not DRAFT, too few lines, a total that is not positive, a missing journal or
  receivable account, an imbalance, or a failure inside the transaction), the store
  after the request is the store before it: the document is as it was, no counter has
  moved and no journal entry or line exists that did not before. In \<open>ledgerDup\<close>
  the transaction fails on the invoice update, after the journal entry is written
  (\<open>ledgerDup_entry_written\<close>), and the entry is gone with the rest.
\<close>

theorem post_failure_no_mutation:
  "(fst (postJournalEntry getFullYear now entryId s) = Inl err
      \<longrightarrow> snd (postJournalEntry getFullYear now entryId s) = s)
   \<and> (fst (postCustomerInvoice getFullYear newId entryNow invoiceNow invoiceId t) = Inl err'
      \<longrightarrow> snd (postCustomerInvoice getFullYear newId entryNow invoiceNow invoiceId t) = t)"
  using postJournalEntry_Inl postCustomerInvoice_Inl by blast

theorem post_failure_no_mutation_witness:
  "fst (postJournalEntry year2026 5 ''e7'' ledger2) = Inl (404, ''Journal entry with id e7 not found'')
   \<and> snd (postJournalEntry year2026 5 ''e7'' ledger2) = ledger2
   \<and> fst (postCustomerInvoice year2026 ''e2'' 5 6 ''i2'' ledger2)
       = Inl (400, ''Journal entry is unbalanced. Debit: 100.01, Credit: 100'')
   \<and> snd (postCustomerInvoice year2026 ''e2'' 5 6 ''i2'' ledger2) = ledger2
   \<and> fst (postCustomerInvoice year2026 ''e2'' 5 6 ''i1'' ledgerDup)
       = Inl (500, ''Failed to post customer invoice'')
   \<and> snd (postCustomerInvoice year2026 ''e2'' 5 6 ''i1'' ledgerDup) = ledgerDup"
proof -
  have c: "fst (postCustomerInvoice year2026 ''e2'' 5 6 ''i1'' ledgerDup)
       = Inl (500, ''Failed to post customer invoice'')"
    by (simp add: ledgerDup_post)
  from c post_failure_no_mutation[of year2026 _ _ _ _ "''e2''" 5 6 "''i1''" ledgerDup]
  have d: "snd (postCustomerInvoice year2026 ''e2'' 5 6 ''i1'' ledgerDup) = ledgerDup"
    by simp
  have a: "fst (postJournalEntry year2026 5 ''e7'' ledger2) = Inl (404, ''Journal entry with id e7 not found'')"
    by (simp add: ledger2_post_missing)
  have b: "fst (postCustomerInvoice year2026 ''e2'' 5 6 ''i2'' ledger2)
       = Inl (400, ''Journal entry is unbalanced. Debit: 100.01, Credit: 100'')"
    by (simp add: ledger2_post_unbalanced)
  from a b c d post_failure_no_mutation[of year2026 5 "''e7''" ledger2 _ "''e2''" 5 6 "''i2''" ledger2]
  show ?thesis by simp
qed



text \<open>
  Claim C8, as the specification states it: \<open>createJournalEntry\<close> accepts its lines
  only if every line has exactly one of debit and credit above zero. The validation
  rejects a line on which both are above zero, and has no check for a line on which
  neither is: on the seeded ledger a request of two lines with debit 0 and credit 0 is
  accepted and persisted as a draft.
\<close>

theorem zero_lines_accepted:
  "body_lines zeroBody = Some
        [\<lparr>input_accountCode = Some ''1000'', input_label = None,
          input_debit = Some 0, input_credit = Some 0\<rparr>,
         \<lparr>input_accountCode = Some ''4000'', input_label = None,
          input_debit = Some 0, input_credit = Some 0\<rparr>]
   \<and> fst (createJournalEntry parseDate0 sameInstant ''e9'' zeroBody seed) =
      Inr \<lparr>entry_id = ''e9'', entry_companyId = ''default-company-id'', entry_journalId = ''jGEN'',
          entry_date = 0, entry_number = None, entry_status = EntryStatus_DRAFT,
          entry_memo = None, entry_postedAt = None,
          entry_journalLines =
            [\<lparr>line_accountId = ''a1000'', line_partnerId = None, line_label = None,
              line_debit = 0, line_credit = 0\<rparr>,
             \<lparr>line_accountId = ''a4000'', line_partnerId = None, line_label = None,
              line_debit = 0, line_credit = 0\<rparr>]\<rparr>
   \<and> length (journalEntries (snd (createJournalEntry parseDate0 sameInstant ''e9'' zeroBody seed))) = 1"
proof -
  have "body_lines zeroBody = Some
        [\<lparr>input_accountCode = Some ''1000'', input_label = None,
          input_debit = Some 0, input_credit = Some 0\<rparr>,
         \<lparr>input_accountCode = Some ''4000'', input_label = None,
          input_debit = Some 0, input_credit = Some 0\<rparr>]"
    by (simp add: zeroBody_def)
  then show ?thesis
    by (simp add: zeroBody_created)
qed

text \<open>
  Claim C8, amended: \<open>createJournalEntry\<close> accepts its lines only if there are at
  least 2 of them and every line has an account code that is not empty and a debit
  and a credit that are numbers, neither below zero and not both above zero (at most
  one of them is above zero; a line on which both are zero is accepted). A request
  with a line whose debit and credit are both above zero is rejected with a validation
  error (status 400), and the store is what it was.
\<close>

theorem createJournalEntry_lines_accepted:
  "(fst (createJournalEntry newDate setHours0 newId body s) = Inr created
      \<longrightarrow> (\<exists>ls. body_lines body = Some ls \<and> 2 \<le> length ls \<and> (\<forall>l \<in> set ls. line_accepted l)))
   \<and> (body_lines body' = Some ls' \<and> l' \<in> set ls' \<and> input_debit l' = Some d \<and> input_credit l' = Some c
        \<and> 0 < d \<and> 0 < c
      \<longrightarrow> (\<exists>message. createJournalEntry newDate' setHours0' newId' body' s' = (Inl (400, message), s')))"
proof (intro conjI impI)
  assume "fst (createJournalEntry newDate setHours0 newId body s) = Inr created"
  then have "validateBody newDate body = []"
    by (rule createJournalEntry_valid)
  then show "\<exists>ls. body_lines body = Some ls \<and> 2 \<le> length ls \<and> (\<forall>l \<in> set ls. line_accepted l)"
    by (rule validateBody_Nil)
next
  assume "body_lines body' = Some ls' \<and> l' \<in> set ls' \<and> input_debit l' = Some d \<and> input_credit l' = Some c
        \<and> 0 < d \<and> 0 < c"
  then have "validateBody newDate' body' \<noteq> []"
    using validateBody_both[of body' ls' l' d c newDate'] by blast
  from createJournalEntry_invalid[OF this]
  show "\<exists>message. createJournalEntry newDate' setHours0' newId' body' s' = (Inl (400, message), s')"
    by blast
qed

theorem createJournalEntry_lines_accepted_witness:
  "fst (createJournalEntry parseDate0 sameInstant ''e1'' balancedBody seed) = Inr draftEntry
   \<and> (\<exists>ls. body_lines balancedBody = Some ls \<and> 2 \<le> length ls \<and> list_all line_accepted ls)
   \<and> body_lines bothBody = Some [bothLine, bothLine]
   \<and> input_debit bothLine = Some 5 \<and> input_credit bothLine = Some 7
   \<and> (\<exists>message. createJournalEntry parseDate0 sameInstant ''e1'' bothBody seed = (Inl (400, message), seed))"
proof -
  note inst = createJournalEntry_lines_accepted[of parseDate0 sameInstant "''e1''" balancedBody seed draftEntry
      bothBody "[bothLine, bothLine]" bothLine 5 7 parseDate0 sameInstant "''e1''" seed]
  have a: "fst (createJournalEntry parseDate0 sameInstant ''e1'' balancedBody seed) = Inr draftEntry"
    by (simp add: created_eq)
  have b: "body_lines bothBody = Some [bothLine, bothLine]"
    "input_debit bothLine = Some 5" "input_credit bothLine = Some 7"
    by (simp_all add: bothBody_def bothLine_def)
  from inst a have 1: "\<exists>ls. body_lines balancedBody = Some ls \<and> 2 \<le> length ls \<and> list_all line_accepted ls"
    by (simp add: list_all_iff)
  from inst b have 2: "\<exists>message. createJournalEntry parseDate0 sameInstant ''e1'' bothBody seed
                         = (Inl (400, message), seed)"
    by simp
  from a b 1 2 show ?thesis by simp
qed

text \<open>
  Claim C9. \<open>postCustomerInvoice\<close> resolves the receivable account of the company as
  the specification describes it: it tries the codes 1200, 110000, 12000, 1100 in this
  order and takes the first whose account exists with type ASSET; when no code
  resolves it takes the first ASSET account of the company whose name contains
  "Receivable", letters compared without regard to case; the account found belongs to
  the company, is an ASSET and has one of the codes or such a name; and when neither
  way finds an account the post fails with NotFound (404) and changes nothing.
\<close>

theorem receivable_account_resolution:
  "findAccountsReceivableAccount companyId s = findAccountsReceivableAccount_spec companyId s
   \<and> (contains_insensitive name pattern
        = (\<exists>u v. map toLower name = u @ map toLower pattern @ v))
   \<and> (findAccountsReceivableAccount companyId s = Some a
      \<longrightarrow> a \<in> set (accounts s) \<and> account_companyId a = companyId \<and> account_type a = ASSET
          \<and> (account_code a \<in> {''1200'', ''110000'', ''12000'', ''1100''}
              \<or> contains_insensitive (account_name a) ''Receivable''))
   \<and> (customerInvoice_findUnique invoiceId t = Some invoice
        \<and> invoice_status invoice = InvoiceStatus_DRAFT \<and> invoice_lines invoice \<noteq> []
        \<and> 0 < invoice_totalAmount invoice
        \<and> journal_findUnique (invoice_companyId invoice) ''SAL'' t = Some salesJournal
        \<and> findAccountsReceivableAccount (invoice_companyId invoice) t = None
      \<longrightarrow> postCustomerInvoice getFullYear newId entryNow invoiceNow invoiceId t
          = (Inl (404, ''Accounts Receivable account not found. Please ensure an Accounts Receivable (ASSET) account is set up for this company.''), t))"
proof (intro conjI impI)
  show "findAccountsReceivableAccount companyId s = findAccountsReceivableAccount_spec companyId s"
    by (simp add: findAccountsReceivableAccount_def findAccountsReceivableAccount_spec_def
        tryCodes_map_filter commonCodes_def split: list.splits)
next
  show "contains_insensitive name pattern = (\<exists>u v. map toLower name = u @ map toLower pattern @ v)"
    by (simp add: contains_insensitive_def str_includes_iff)
next
  assume "findAccountsReceivableAccount companyId s = Some a"
  from findAccountsReceivableAccount_Some[OF this]
  show "a \<in> set (accounts s)" "account_companyId a = companyId" "account_type a = ASSET"
    "account_code a \<in> {''1200'', ''110000'', ''12000'', ''1100''}
       \<or> contains_insensitive (account_name a) ''Receivable''"
    by (simp_all add: commonCodes_def)
next
  assume "customerInvoice_findUnique invoiceId t = Some invoice
        \<and> invoice_status invoice = InvoiceStatus_DRAFT \<and> invoice_lines invoice \<noteq> []
        \<and> 0 < invoice_totalAmount invoice
        \<and> journal_findUnique (invoice_companyId invoice) ''SAL'' t = Some salesJournal
        \<and> findAccountsReceivableAccount (invoice_companyId invoice) t = None"
  then show "postCustomerInvoice getFullYear newId entryNow invoiceNow invoiceId t
          = (Inl (404, ''Accounts Receivable account not found. Please ensure an Accounts Receivable (ASSET) account is set up for this company.''), t)"
    by (simp add: postCustomerInvoice_def)
qed

theorem receivable_account_resolution_witness:
  "findAccountsReceivableAccount ''default-company-id'' seed = Some (accounts seed ! 2)
   \<and> findAccountsReceivableAccount_spec ''default-company-id'' seed = Some (accounts seed ! 2)
   \<and> account_code (accounts seed ! 2) = ''1200''
   \<and> findAccountsReceivableAccount ''default-company-id'' ledgerNamedAR = Some namedAR
   \<and> account_type namedAR = ASSET \<and> contains_insensitive (account_name namedAR) ''Receivable''
   \<and> findAccountsReceivableAccount ''default-company-id'' ledgerNoAR = None
   \<and> postCustomerInvoice year2026 ''e2'' 5 6 ''i1'' ledgerNoAR
      = (Inl (404, ''Accounts Receivable account not found. Please ensure an Accounts Receivable (ASSET) account is set up for this company.''), ledgerNoAR)"
proof -
  note seed_inst = receivable_account_resolution[of "''default-company-id''" seed, THEN conjunct1]
  note named_inst = receivable_account_resolution[of "''default-company-id''" ledgerNamedAR _ _ namedAR,
      THEN conjunct2, THEN conjunct2, THEN conjunct1]
  note noAR_inst = receivable_account_resolution[of _ _ _ _ _ "''i1''" ledgerNoAR draftInvoice
      "journals seed ! 1" year2026 "''e2''" 5 6, THEN conjunct2, THEN conjunct2, THEN conjunct2]
  have d: "invoice_status draftInvoice = InvoiceStatus_DRAFT" "invoice_lines draftInvoice \<noteq> []"
    "0 < invoice_totalAmount draftInvoice" "invoice_companyId draftInvoice = ''default-company-id''"
    by (simp_all add: draftInvoice_def)
  from seed_inst have 1: "findAccountsReceivableAccount_spec ''default-company-id'' seed = Some (accounts seed ! 2)"
    by (simp add: ledgerNoAR_lookups)
  from named_inst have 2: "account_type namedAR = ASSET"
    "account_code namedAR \<in> {''1200'', ''110000'', ''12000'', ''1100''}
       \<or> contains_insensitive (account_name namedAR) ''Receivable''"
    by (simp_all add: ledgerNoAR_lookups)
  have "account_code namedAR \<notin> {''1200'', ''110000'', ''12000'', ''1100''}"
    by (simp add: namedAR_def)
  with 2 have 3: "contains_insensitive (account_name namedAR) ''Receivable''"
    by blast
  from noAR_inst d have 4: "postCustomerInvoice year2026 ''e2'' 5 6 ''i1'' ledgerNoAR
      = (Inl (404, ''Accounts Receivable account not found. Please ensure an Accounts Receivable (ASSET) account is set up for this company.''), ledgerNoAR)"
    by (simp add: ledgerNoAR_lookups)
  have 5: "account_code (accounts seed ! 2) = ''1200''"
    by (simp add: seed_def)
  from 1 2 3 4 5 show ?thesis
    by (simp add: ledgerNoAR_lookups)
qed

text \<open>
  Claim C10. A successful \<open>postJournalEntry\<close> sets the number, the status (POSTED)
  and the posting time of the entry and adds 1 to the counter of its journal, and
  nothing else: the companies, accounts, partners and invoices are what they were, no entry
  or journal is added or removed, every other entry and every other journal is
  untouched, and the identifier, company, journal, date, memo and lines of the entry
  are kept.
\<close>

theorem postJournalEntry_frame:
  assumes "postJournalEntry getFullYear now entryId s = (Inr posted, s')"
  shows "companies s' = companies s \<and> accounts s' = accounts s \<and> partners s' = partners s
    \<and> customerInvoices s' = customerInvoices s
    \<and> length (journalEntries s') = length (journalEntries s)
    \<and> length (journals s') = length (journals s)
    \<and> (\<forall>k < length (journalEntries s).
          if entry_id (journalEntries s ! k) = entryId
          then entry_number (journalEntries s' ! k) = entry_number posted
             \<and> entry_status (journalEntries s' ! k) = EntryStatus_POSTED
             \<and> entry_postedAt (journalEntries s' ! k) = Some now
             \<and> entry_id (journalEntries s' ! k) = entryId
             \<and> entry_companyId (journalEntries s' ! k) = entry_companyId (journalEntries s ! k)
             \<and> entry_journalId (journalEntries s' ! k) = entry_journalId (journalEntries s ! k)
             \<and> entry_date (journalEntries s' ! k) = entry_date (journalEntries s ! k)
             \<and> entry_memo (journalEntries s' ! k) = entry_memo (journalEntries s ! k)
             \<and> entry_journalLines (journalEntries s' ! k) = entry_journalLines (journalEntries s ! k)
          else journalEntries s' ! k = journalEntries s ! k)
    \<and> (\<exists>entry. journalEntry_findUnique entryId s = Some entry
          \<and> (\<forall>k < length (journals s).
                if journal_id (journals s ! k) = entry_journalId entry
                then journals s' ! k
                     = (journals s ! k)\<lparr>journal_nextNumber := journal_nextNumber (journals s ! k) + 1\<rparr>
                else journals s' ! k = journals s ! k))"
proof -
  from postJournalEntry_Inr[OF assms] obtain entry where
    f: "journalEntry_findUnique entryId s = Some entry"
    and tx: "postJournalEntry_tx entryId entry (getFullYear (entry_date entry)) now s = Inr (posted, s')"
    by blast
  define upd where "upd = (\<lambda>x::JournalEntry. x\<lparr>entry_number := entry_number posted,
                                   entry_status := EntryStatus_POSTED, entry_postedAt := Some now\<rparr>)"
  define inc where "inc = (\<lambda>x::Journal. x\<lparr>journal_nextNumber := journal_nextNumber x + 1\<rparr>)"
  from postJournalEntry_tx_Inr[OF tx] have
    "\<exists>journal. find (\<lambda>j. journal_id j = entry_journalId entry) (journals s) = Some journal
      \<and> s' = s\<lparr>journalEntries := map (\<lambda>x. if entry_id x = entryId then upd x else x) (journalEntries s),
                journals := map (\<lambda>x. if journal_id x = journal_id journal then inc x else x) (journals s)\<rparr>"
    by (auto simp: upd_def inc_def)
  then obtain journal where
    j: "find (\<lambda>j. journal_id j = entry_journalId entry) (journals s) = Some journal"
    and s': "s' = s\<lparr>journalEntries := map (\<lambda>x. if entry_id x = entryId then upd x else x) (journalEntries s),
                 journals := map (\<lambda>x. if journal_id x = journal_id journal then inc x else x) (journals s)\<rparr>"
    by blast
  from j have jid: "journal_id journal = entry_journalId entry"
    by (rule find_id_Some)
  show ?thesis
    using f by (simp add: s' jid upd_def inc_def)
qed

theorem postJournalEntry_frame_witness:
  "postJournalEntry year2026 5 ''e1'' ledgerCreated = (Inr postedEntry, ledgerPosted)
   \<and> companies ledgerPosted = companies seed \<and> accounts ledgerPosted = accounts seed
   \<and> partners ledgerPosted = partners seed \<and> customerInvoices ledgerPosted = []
   \<and> length (journalEntries ledgerPosted) = 1 \<and> length (journals ledgerPosted) = 4"
proof -
  from postJournalEntry_frame[OF posted_eq] have
    "companies ledgerPosted = companies ledgerCreated \<and> accounts ledgerPosted = accounts ledgerCreated
     \<and> partners ledgerPosted = partners ledgerCreated
     \<and> customerInvoices ledgerPosted = customerInvoices ledgerCreated
     \<and> length (journalEntries ledgerPosted) = length (journalEntries ledgerCreated)
     \<and> length (journals ledgerPosted) = length (journals ledgerCreated)"
    by blast
  moreover have "companies ledgerCreated = companies seed" "accounts ledgerCreated = accounts seed"
    "partners ledgerCreated = partners seed" "customerInvoices ledgerCreated = []"
    "length (journalEntries ledgerCreated) = 1" "length (journals ledgerCreated) = 4"
    by (simp_all add: ledgerCreated_eq seed_def)
  ultimately show ?thesis
    using posted_eq by simp
qed


end
